theory Spec2Isabelle
  imports Complex_Main
begin

section \<open>JavaScript numbers\<close>

text \<open>
  A JavaScript number is an IEEE-754 binary64 value.  The finite values are modelled by
  the rational they denote, next to \<open>NaN\<close> and the two infinities.  The sign of zero is
  not represented (\<open>-0\<close> and \<open>+0\<close> are both \<open>Fin 0\<close>); none of the functions below can
  tell them apart.  Arithmetic is the exact operation followed by \<open>fl\<close>, the rounding to
  the nearest binary64 value (ties to even), which overflows to an infinity.
\<close>

datatype jsnum = NaN | PInf | NInf | Fin rat

fun bit_length :: "nat \<Rightarrow> nat" where
  "bit_length n = (if n = 0 then 0 else Suc (bit_length (n div 2)))"

declare bit_length.simps [simp del]

definition pow2 :: "int \<Rightarrow> rat" where
  "pow2 e = (if 0 \<le> e then 2 ^ nat e else 1 / 2 ^ nat (- e))"

text \<open>\<open>floor_log2 x\<close> is the exponent \<open>e\<close> with \<open>2^e \<le> x < 2^(e+1)\<close>, for \<open>0 < x\<close>.\<close>

definition floor_log2 :: "rat \<Rightarrow> int" where
  "floor_log2 x =
     (if 1 \<le> x then int (bit_length (nat \<lfloor>x\<rfloor>)) - 1
      else - int (bit_length (nat (\<lceil>1 / x\<rceil> - 1))))"

definition round_half_even :: "rat \<Rightarrow> int" where
  "round_half_even x =
     (let f = \<lfloor>x\<rfloor>; r = x - of_int f
      in if r < 1 / 2 then f
         else if 1 / 2 < r then f + 1
         else if even f then f else f + 1)"

text \<open>
  Rounding of a positive rational: the spacing of binary64 values around \<open>x\<close> is
  \<open>2^(e-52)\<close> for the exponent \<open>e\<close> of \<open>x\<close> (at least \<open>-1022\<close>: below, the values are
  subnormal); a magnitude of \<open>2^1024\<close> or more, before or after rounding, is an overflow,
  reported as \<open>None\<close>.
\<close>

definition fl_pos :: "rat \<Rightarrow> rat option" where
  "fl_pos x =
     (if pow2 1024 \<le> x then None
      else
        let e = max (floor_log2 x) (- 1022);
            ulp = pow2 (e - 52);
            y = of_int (round_half_even (x / ulp)) * ulp
        in if pow2 1024 \<le> y then None else Some y)"

definition fl :: "rat \<Rightarrow> jsnum" where
  "fl x =
     (if x = 0 then Fin 0
      else if 0 < x then (case fl_pos x of None \<Rightarrow> PInf | Some y \<Rightarrow> Fin y)
      else (case fl_pos (- x) of None \<Rightarrow> NInf | Some y \<Rightarrow> Fin (- y)))"

fun js_add :: "jsnum \<Rightarrow> jsnum \<Rightarrow> jsnum" where
  "js_add NaN _ = NaN"
| "js_add _ NaN = NaN"
| "js_add PInf NInf = NaN"
| "js_add NInf PInf = NaN"
| "js_add PInf _ = PInf"
| "js_add _ PInf = PInf"
| "js_add NInf _ = NInf"
| "js_add _ NInf = NInf"
| "js_add (Fin a) (Fin b) = fl (a + b)"

fun js_neg :: "jsnum \<Rightarrow> jsnum" where
  "js_neg NaN = NaN"
| "js_neg PInf = NInf"
| "js_neg NInf = PInf"
| "js_neg (Fin a) = Fin (- a)"

text \<open>\<open>a < b\<close> on numbers: false as soon as one side is \<open>NaN\<close>.\<close>

fun js_lt :: "jsnum \<Rightarrow> jsnum \<Rightarrow> bool" where
  "js_lt NaN _ = False"
| "js_lt _ NaN = False"
| "js_lt PInf _ = False"
| "js_lt _ NInf = False"
| "js_lt NInf _ = True"
| "js_lt _ PInf = True"
| "js_lt (Fin a) (Fin b) = (a < b)"

text \<open>The binary64 value \<open>2^1023\<close> (about \<open>8.99e307\<close>); the largest finite value is
  just below its double.\<close>

definition huge :: rat where
  "huge = 2 ^ 1023"

text \<open>\<open>Number.isFinite\<close> on a number, and the truthiness of a number (\<open>!n\<close> is its
  negation): \<open>0\<close> and \<open>NaN\<close> are falsy.\<close>

fun isFinite :: "jsnum \<Rightarrow> bool" where
  "isFinite (Fin _) = True"
| "isFinite _ = False"

fun truthy :: "jsnum \<Rightarrow> bool" where
  "truthy NaN = False"
| "truthy (Fin a) = (a \<noteq> 0)"
| "truthy _ = True"

section \<open>JavaScript strings\<close>

text \<open>
  A string is a list of code units; \<open>char\<close> has 256 values, so the model covers the
  code units below 256 and is exact on ASCII text.  White space (\<open>\s\<close> in a regular
  expression, and what \<open>trim\<close> strips) is TAB, LF, VT, FF, CR, SPACE and NBSP in that range.
  The case mappings act on the ASCII letters and leave every other code unit as it is.
\<close>

definition isWhiteSpace :: "char \<Rightarrow> bool" where
  "isWhiteSpace c =
     (c = CHR 0x09 \<or> c = CHR 0x0A \<or> c = CHR 0x0B \<or> c = CHR 0x0C \<or> c = CHR 0x0D \<or>
      c = CHR 0x20 \<or> c = CHR 0xA0)"

definition isDigit :: "char \<Rightarrow> bool" where
  "isDigit c = (48 \<le> (of_char c :: nat) \<and> (of_char c :: nat) \<le> 57)"

definition isUpper :: "char \<Rightarrow> bool" where
  "isUpper c = (65 \<le> (of_char c :: nat) \<and> (of_char c :: nat) \<le> 90)"

definition isLower :: "char \<Rightarrow> bool" where
  "isLower c = (97 \<le> (of_char c :: nat) \<and> (of_char c :: nat) \<le> 122)"

text \<open>A lower-case letter and its upper-case letter differ by 32, the sixth bit of the
  code.\<close>

definition upperChar :: "char \<Rightarrow> char" where
  "upperChar c =
     (case c of
        Char b0 b1 b2 b3 b4 b5 b6 b7 \<Rightarrow>
          if isLower c then Char b0 b1 b2 b3 b4 False b6 b7 else c)"

definition lowerChar :: "char \<Rightarrow> char" where
  "lowerChar c =
     (case c of
        Char b0 b1 b2 b3 b4 b5 b6 b7 \<Rightarrow>
          if isUpper c then Char b0 b1 b2 b3 b4 True b6 b7 else c)"

text \<open>The value of a decimal digit.\<close>

definition digitVal :: "char \<Rightarrow> nat" where
  "digitVal c = (of_char c :: nat) - 48"

definition toUpperCase :: "string \<Rightarrow> string" where
  "toUpperCase s = map upperChar s"

definition toLowerCase :: "string \<Rightarrow> string" where
  "toLowerCase s = map lowerChar s"

definition trimStart :: "string \<Rightarrow> string" where
  "trimStart s = dropWhile isWhiteSpace s"

definition trimEnd :: "string \<Rightarrow> string" where
  "trimEnd s = rev (dropWhile isWhiteSpace (rev s))"

definition trim :: "string \<Rightarrow> string" where
  "trim s = trimEnd (trimStart s)"

definition startsWith :: "string \<Rightarrow> string \<Rightarrow> bool" where
  "startsWith s p = (take (length p) s = p)"

definition endsWith :: "string \<Rightarrow> string \<Rightarrow> bool" where
  "endsWith s p = (length p \<le> length s \<and> drop (length s - length p) s = p)"

text \<open>\<open>s.includes(p)\<close>: \<open>p\<close> occurs in \<open>s\<close> at some position.\<close>

fun includes_str :: "string \<Rightarrow> string \<Rightarrow> bool" where
  "includes_str [] p = (p = [])"
| "includes_str (c # s) p = (if startsWith (c # s) p then True else includes_str s p)"

text \<open>\<open>s.indexOf(p)\<close>, \<open>None\<close> for \<open>-1\<close>.\<close>

fun indexOf :: "string \<Rightarrow> string \<Rightarrow> nat option" where
  "indexOf [] p = (if p = [] then Some 0 else None)"
| "indexOf (c # s) p =
     (if startsWith (c # s) p then Some 0 else map_option Suc (indexOf s p))"

text \<open>\<open>parts.join(sep)\<close>.\<close>

fun join :: "string \<Rightarrow> string list \<Rightarrow> string" where
  "join sep [] = []"
| "join sep [x] = x"
| "join sep (x # y # ys) = x @ sep @ join sep (y # ys)"

text \<open>The decimal digits of a natural number, as \<open>String(n)\<close> prints it.\<close>

fun nat_to_string :: "nat \<Rightarrow> string" where
  "nat_to_string n =
     (if n < 10 then [''0123456789'' ! n]
      else nat_to_string (n div 10) @ [''0123456789'' ! (n mod 10)])"

declare nat_to_string.simps [simp del]

section \<open>Values of cells, and their conversion to strings and numbers\<close>

text \<open>
  A cell of a worksheet row (as \<open>sheet_to_json\<close> with \<open>header: 1, raw: true\<close> yields it:
  the loader reads the workbook without \<open>cellDates\<close>, so no cell is a \<open>Date\<close> object) or a
  field of a split line of delimited text (a string, or \<open>undefined\<close> past the end of the
  line).
\<close>

datatype cell = CUndefined | CNull | CBool bool | CNum jsnum | CStr string

definition pow10 :: "int \<Rightarrow> rat" where
  "pow10 e = (if 0 \<le> e then 10 ^ nat e else 1 / 10 ^ nat (- e))"

text \<open>
  \<open>Number::toString\<close> of a positive finite number \<open>x\<close>: the digits \<open>s\<close> (a number of \<open>k\<close>
  digits) and the exponent \<open>n\<close> with \<open>s * 10^(n-k)\<close> rounding to \<open>x\<close>, for the least \<open>k\<close>,
  and the closest such \<open>s\<close>.  \<open>decimal_exponent x\<close> is the \<open>n\<close> with
  \<open>10^(n-1) \<le> x < 10^n\<close>; for \<open>k\<close> digits the two candidates are the multiples of
  \<open>10^(n-k)\<close> around \<open>x\<close>.
\<close>

definition decimal_exponent :: "rat \<Rightarrow> int" where
  "decimal_exponent x =
     (if 1 \<le> x then int (length (nat_to_string (nat \<lfloor>x\<rfloor>)))
      else 1 - int (length (nat_to_string (nat (\<lceil>1 / x\<rceil> - 1)))))"

definition digits_candidate :: "rat \<Rightarrow> int \<Rightarrow> nat \<Rightarrow> (int \<times> int) option" where
  "digits_candidate x n k =
     (let scale = pow10 (n - int k);
          lo = \<lfloor>x / scale\<rfloor>;
          hi = lo + 1;
          vlo = of_int lo * scale;
          vhi = of_int hi * scale;
          oklo = (fl vlo = Fin x);
          okhi = (fl vhi = Fin x)
      in if oklo \<and> (\<not> okhi \<or> x - vlo < vhi - x \<or> (x - vlo = vhi - x \<and> even lo))
         then Some (lo, n)
         else if okhi then (if hi = 10 ^ k then Some (10 ^ (k - 1), n + 1) else Some (hi, n))
         else None)"

fun shortest_digits :: "rat \<Rightarrow> int \<Rightarrow> nat list \<Rightarrow> (int \<times> int) option" where
  "shortest_digits x n [] = None"
| "shortest_digits x n (k # ks) =
     (case digits_candidate x n k of
        Some r \<Rightarrow> Some r
      | None \<Rightarrow> shortest_digits x n ks)"

definition format_digits :: "string \<Rightarrow> int \<Rightarrow> string" where
  "format_digits ds n =
     (let k = int (length ds)
      in if k \<le> n \<and> n \<le> 21 then ds @ replicate (nat (n - k)) (CHR ''0'')
         else if 0 < n \<and> n \<le> 21 then take (nat n) ds @ ''.'' @ drop (nat n) ds
         else if - 6 < n \<and> n \<le> 0 then ''0.'' @ replicate (nat (- n)) (CHR ''0'') @ ds
         else
           let e = n - 1;
               es = (if e < 0 then ''-'' else ''+'') @ nat_to_string (nat \<bar>e\<bar>)
           in if k = 1 then ds @ ''e'' @ es
              else take 1 ds @ ''.'' @ drop 1 ds @ ''e'' @ es)"

definition positiveToString :: "rat \<Rightarrow> string" where
  "positiveToString x =
     (case shortest_digits x (decimal_exponent x)
             [1, 2, 3, 4, 5, 6, 7, 8, 9, 10, 11, 12, 13, 14, 15, 16, 17] of
        None \<Rightarrow> []
      | Some (s, n) \<Rightarrow> format_digits (nat_to_string (nat s)) n)"

fun numberToString :: "jsnum \<Rightarrow> string" where
  "numberToString NaN = ''NaN''"
| "numberToString PInf = ''Infinity''"
| "numberToString NInf = ''-Infinity''"
| "numberToString (Fin x) =
     (if x = 0 then ''0''
      else if x < 0 then ''-'' @ positiveToString (- x)
      else positiveToString x)"

text \<open>\<open>String(v)\<close>.\<close>

fun toStr :: "cell \<Rightarrow> string" where
  "toStr CUndefined = ''undefined''"
| "toStr CNull = ''null''"
| "toStr (CBool b) = (if b then ''true'' else ''false'')"
| "toStr (CNum n) = numberToString n"
| "toStr (CStr s) = s"

text \<open>\<open>String(v ?? '')\<close>.\<close>

fun toStrOrEmpty :: "cell \<Rightarrow> string" where
  "toStrOrEmpty CUndefined = []"
| "toStrOrEmpty CNull = []"
| "toStrOrEmpty v = toStr v"

text \<open>
  \<open>Number(s)\<close> for a string: white space is trimmed, the empty string is 0, and the rest
  must be a numeric literal as a whole: a signed decimal literal (\<open>Infinity\<close>, digits with an
  optional fraction and exponent) or an unsigned binary, octal or hexadecimal integer;
  anything else is \<open>NaN\<close>.  The value is the exact one, rounded.
\<close>

definition digits_val :: "string \<Rightarrow> nat" where
  "digits_val ds = foldl (\<lambda>a c. 10 * a + digitVal c) 0 ds"

text \<open>The exponent part that ends a decimal literal: nothing, or \<open>e\<close> or \<open>E\<close>, an optional
  sign and digits.\<close>

definition signed_digits :: "string \<Rightarrow> int option" where
  "signed_digits s =
     (case s of
        [] \<Rightarrow> None
      | c # r \<Rightarrow>
          if c = CHR ''+'' then (if r \<noteq> [] \<and> list_all isDigit r then Some (int (digits_val r)) else None)
          else if c = CHR ''-'' then (if r \<noteq> [] \<and> list_all isDigit r then Some (- int (digits_val r)) else None)
          else if list_all isDigit s then Some (int (digits_val s)) else None)"

definition exponent_part :: "string \<Rightarrow> int option" where
  "exponent_part s =
     (case s of
        [] \<Rightarrow> Some 0
      | c # r \<Rightarrow> if c = CHR ''e'' \<or> c = CHR ''E'' then signed_digits r else None)"

definition unsigned_decimal :: "string \<Rightarrow> jsnum option" where
  "unsigned_decimal s =
     (if s = ''Infinity'' then Some PInf
      else
        let ip = takeWhile isDigit s;
            r1 = dropWhile isDigit s
        in case r1 of
             c # r2 \<Rightarrow>
               if c = CHR ''.'' then
                 let fp = takeWhile isDigit r2;
                     r3 = dropWhile isDigit r2
                 in if ip = [] \<and> fp = [] then None
                    else (case exponent_part r3 of
                            None \<Rightarrow> None
                          | Some e \<Rightarrow>
                              Some (fl (of_nat (digits_val (ip @ fp)) * pow10 (e - int (length fp)))))
               else if ip = [] then None
               else (case exponent_part r1 of
                       None \<Rightarrow> None
                     | Some e \<Rightarrow> Some (fl (of_nat (digits_val ip) * pow10 e)))
           | [] \<Rightarrow> if ip = [] then None else Some (fl (of_nat (digits_val ip))))"

definition radix_digit :: "char \<Rightarrow> nat option" where
  "radix_digit c =
     (if isDigit c then Some (digitVal c)
      else map_of (zip ''abcdefABCDEF'' [10, 11, 12, 13, 14, 15, 10, 11, 12, 13, 14, 15]) c)"

definition radix_val :: "nat \<Rightarrow> string \<Rightarrow> nat option" where
  "radix_val b ds =
     (if ds \<noteq> [] \<and> list_all (\<lambda>c. case radix_digit c of None \<Rightarrow> False | Some d \<Rightarrow> d < b) ds
      then Some (foldl (\<lambda>a c. b * a + the (radix_digit c)) 0 ds)
      else None)"

definition non_decimal :: "string \<Rightarrow> jsnum option" where
  "non_decimal s =
     (case s of
        z # x # ds \<Rightarrow>
          if z \<noteq> CHR ''0'' then None
          else
            let b = (if x = CHR ''x'' \<or> x = CHR ''X'' then 16
                     else if x = CHR ''o'' \<or> x = CHR ''O'' then 8
                     else if x = CHR ''b'' \<or> x = CHR ''B'' then 2 else 0)
            in if b = 0 then None
               else map_option (\<lambda>v. fl (of_nat v)) (radix_val b ds)
      | _ \<Rightarrow> None)"

definition stringToNumber :: "string \<Rightarrow> jsnum" where
  "stringToNumber str =
     (let s = trim str
      in case s of
           [] \<Rightarrow> Fin 0
         | c # r \<Rightarrow>
             if c = CHR ''+'' then (case unsigned_decimal r of None \<Rightarrow> NaN | Some v \<Rightarrow> v)
             else if c = CHR ''-'' then
               (case unsigned_decimal r of None \<Rightarrow> NaN | Some v \<Rightarrow> js_neg v)
             else
               (case non_decimal s of
                  Some v \<Rightarrow> v
                | None \<Rightarrow> (case unsigned_decimal s of None \<Rightarrow> NaN | Some v \<Rightarrow> v)))"

section \<open>Amounts (parseAmount, normalizeMoney)\<close>

text \<open>\<open>s.replace(/[\s...]/g, '')\<close>, where the class holds \<open>\s\<close>, U+2007 and U+202F: the two code points named next to \<open>\s\<close> are
  white space themselves (and beyond the code units of the model).\<close>

definition removeSpaces :: "string \<Rightarrow> string" where
  "removeSpaces s = filter (\<lambda>c. \<not> isWhiteSpace c) s"

text \<open>The string part of \<open>parseAmount\<close>, from \<open>const raw = String(value).trim()\<close> on.\<close>

definition parseAmountText :: "string \<Rightarrow> jsnum option" where
  "parseAmountText str =
     (let raw = trim str
      in if raw = [] then None
         else
           let looksBlank = (raw = ''-'' \<or> removeSpaces raw = ''-'')
           in if looksBlank then None
              else
                let noSpaces = removeSpaces raw;
                    isParenNegative = (startsWith noSpaces ''('' \<and> endsWith noSpaces '')'');
                    stripped = filter (\<lambda>c. c \<notin> set ''(),'') noSpaces
                in if stripped = [] then None
                   else
                     let num = stringToNumber stripped
                     in if \<not> isFinite num then None
                        else Some (if isParenNegative then js_neg num else num))"

fun parseAmount :: "cell \<Rightarrow> jsnum option" where
  "parseAmount CNull = None"
| "parseAmount CUndefined = None"
| "parseAmount (CNum n) = (if isFinite n then Some n else parseAmountText (toStr (CNum n)))"
| "parseAmount v = parseAmountText (toStr v)"

definition normalizeMoney :: "cell \<Rightarrow> jsnum option" where
  "normalizeMoney n =
     (case parseAmount n of
        None \<Rightarrow> None
      | Some num \<Rightarrow>
          if \<not> isFinite num then None
          else Some (if js_lt num (Fin 0) then js_neg num else num))"

section \<open>Dates\<close>

text \<open>
  A \<open>Date\<close> object holds a time value, the milliseconds since 1970-01-01T00:00:00Z, or is
  invalid.  The local-time accessors read the time value shifted by the offset of the
  host's time zone, \<open>tz\<close> milliseconds, a parameter of every function that uses them
  (one fixed offset: daylight-saving changes are outside the model).
\<close>

datatype jsdate = Date int | InvalidDate

definition msPerDay :: int where
  "msPerDay = 86400000"

text \<open>
  The year, month (1 to 12) and day of the month of a day number (days since 1970-01-01)
  in the proleptic Gregorian calendar, which is what \<open>YearFromTime\<close>, \<open>MonthFromTime\<close> and
  \<open>DateFromTime\<close> of the language definition give.  The computation counts in 400-year
  eras that start on 1 March: \<open>doe\<close> is the day of the era, \<open>year_of_era\<close> its year in the
  era and \<open>day_of_year\<close> its day in that (March-based) year.
\<close>

definition year_of_era :: "int \<Rightarrow> int" where
  "year_of_era doe = (doe - doe div 1460 + doe div 36524 - doe div 146096) div 365"

definition day_of_year :: "int \<Rightarrow> int" where
  "day_of_year doe =
     doe - (365 * year_of_era doe + year_of_era doe div 4 - year_of_era doe div 100)"

definition civil_from_days :: "int \<Rightarrow> int \<times> int \<times> int" where
  "civil_from_days z0 =
     (let z = z0 + 719468;
          doe = z mod 146097;
          doy = day_of_year doe;
          mp = (5 * doy + 2) div 153;
          d = doy - (153 * mp + 2) div 5 + 1;
          m = (if mp < 10 then mp + 3 else mp - 9);
          y = year_of_era doe + (z div 146097) * 400 + (if m \<le> 2 then 1 else 0)
      in (y, m, d))"

definition getFullYear :: "int \<Rightarrow> int \<Rightarrow> int" where
  "getFullYear tz t = fst (civil_from_days ((t + tz) div msPerDay))"

definition getMonth :: "int \<Rightarrow> int \<Rightarrow> nat" where
  "getMonth tz t = nat (fst (snd (civil_from_days ((t + tz) div msPerDay))) - 1)"

definition getDate :: "int \<Rightarrow> int \<Rightarrow> int" where
  "getDate tz t = snd (snd (civil_from_days ((t + tz) div msPerDay)))"


text \<open>
  The day number of a calendar date, for a month \<open>m\<close> from 1 to 12 and any day \<open>d\<close> (a day
  past the end of the month runs into the next one, as \<open>MakeDay\<close> does).
\<close>

definition days_from_civil :: "int \<Rightarrow> int \<Rightarrow> int \<Rightarrow> int" where
  "days_from_civil y m d =
     (let y1 = (if m \<le> 2 then y - 1 else y);
          era = y1 div 400;
          yoe = y1 mod 400;
          doy = (153 * (if 2 < m then m - 3 else m + 9) + 2) div 5 + d - 1;
          doe = yoe * 365 + yoe div 4 - yoe div 100 + doy
      in era * 146097 + doe - 719468)"

text \<open>\<open>new Date(Date.UTC(year, month - 1, day, 12, 0, 0))\<close> for a month from 1 to 12:
  a year from 0 to 99 stands for 1900 plus that year, and the result is an invalid date
  when it is out of the range of time values.\<close>

definition utc_noon :: "int \<Rightarrow> int \<Rightarrow> int \<Rightarrow> jsdate" where
  "utc_noon year m d =
     (let yr = (if 0 \<le> year \<and> year \<le> 99 then 1900 + year else year);
          t = days_from_civil yr m 1 * msPerDay + (d - 1) * msPerDay + 12 * 3600000
      in if \<bar>t\<bar> \<le> 8640000000000000 then Date t else InvalidDate)"

text \<open>The UTC accessors, and \<open>formatDateIso\<close> (the repository's rendering of a date as
  \<open>YYYY-MM-DD\<close> from them).\<close>

definition utc_civil :: "int \<Rightarrow> int \<times> int \<times> int" where
  "utc_civil t = civil_from_days (t div msPerDay)"

definition int_to_string :: "int \<Rightarrow> string" where
  "int_to_string i = (if i < 0 then ''-'' @ nat_to_string (nat (- i)) else nat_to_string (nat i))"

definition pad2 :: "int \<Rightarrow> string" where
  "pad2 n = (let s = int_to_string n in if length s < 2 then ''0'' @ s else s)"

fun formatDateIso :: "jsdate \<Rightarrow> string" where
  "formatDateIso InvalidDate = []"
| "formatDateIso (Date t) =
     (case utc_civil t of
        (y, m, d) \<Rightarrow> int_to_string y @ ''-'' @ pad2 m @ ''-'' @ pad2 d)"

section \<open>The date parser of the PDF statement (parsePdfDateMmDdYyyy)\<close>

text \<open>The pattern \<open>/^(\d{2})\/(\d{2})\/(\d{4})$/\<close> on a string: the three groups.\<close>

definition match_mmddyyyy :: "string \<Rightarrow> (string \<times> string \<times> string) option" where
  "match_mmddyyyy s =
     (if length s = 10 \<and> list_all isDigit (take 2 s) \<and> s ! 2 = CHR ''/'' \<and>
         list_all isDigit (take 2 (drop 3 s)) \<and> s ! 5 = CHR ''/'' \<and>
         list_all isDigit (drop 6 s)
      then Some (take 2 s, take 2 (drop 3 s), drop 6 s)
      else None)"

definition parsePdfDateMmDdYyyy :: "string \<Rightarrow> jsdate option" where
  "parsePdfDateMmDdYyyy str =
     (case match_mmddyyyy (trim str) of
        None \<Rightarrow> None
      | Some (g1, g2, g3) \<Rightarrow>
          let month = int (digits_val g1);
              day = int (digits_val g2);
              year = int (digits_val g3)
          in if month < 1 \<or> 12 < month then None
             else if day < 1 \<or> 31 < day then None
             else Some (utc_noon year month day))"

section \<open>The date parser of the tabular exports (parseLedgerDate)\<close>

text \<open>
  Modelled from the spec: \<open>XLSX.SSF.parse_date_code\<close> is a function of the spreadsheet
  library, which is not among the repository's files.  The spec describes it as the
  reading of a "spreadsheet date serial (epoch-based day count with the platform's
  leap-year-bug-compatible epoch)": day 1 is 1900-01-01, day 60 is the 29 February 1900
  that never was, and day 0 is reported as day 0 of January 1900.  Serials below 0 or
  above 2958465 (9999-12-31) have no date.  The fraction of the serial is the time of
  day; it moves the date only when it rounds up to the next midnight.  The result is the
  year, month and day.
\<close>

fun js_mul :: "jsnum \<Rightarrow> jsnum \<Rightarrow> jsnum" where
  "js_mul (Fin a) (Fin b) = fl (a * b)"
| "js_mul NaN _ = NaN"
| "js_mul _ NaN = NaN"
| "js_mul (Fin a) PInf = (if a = 0 then NaN else if 0 < a then PInf else NInf)"
| "js_mul (Fin a) NInf = (if a = 0 then NaN else if 0 < a then NInf else PInf)"
| "js_mul PInf (Fin b) = (if b = 0 then NaN else if 0 < b then PInf else NInf)"
| "js_mul NInf (Fin b) = (if b = 0 then NaN else if 0 < b then NInf else PInf)"
| "js_mul PInf PInf = PInf"
| "js_mul NInf NInf = PInf"
| "js_mul PInf NInf = NInf"
| "js_mul NInf PInf = NInf"

definition parse_date_code :: "rat \<Rightarrow> (int \<times> int \<times> int) option" where
  "parse_date_code v =
     (if 2958465 < v \<or> v < 0 then None
      else
        let date0 = \<lfloor>v\<rfloor>;
            secs = js_mul (Fin 86400) (fl (v - of_int date0));
            carry = (case secs of
                       Fin p \<Rightarrow>
                         if \<lfloor>p\<rfloor> + 1 = 86400
                         then js_lt (fl (9999 / 10000)) (fl (p - of_int \<lfloor>p\<rfloor>))
                         else False
                     | _ \<Rightarrow> False);
            date = (if carry then date0 + 1 else date0)
        in Some (if date = 60 then (1900, 2, 29)
                 else if date = 0 then (1900, 1, 0)
                 else civil_from_days
                        (days_from_civil 1900 1 1 + (if 60 < date then date - 1 else date) - 1)))"

text \<open>
  Modelled from the spec: \<open>parse\<close> and \<open>isValid\<close> are functions of the date library, which
  is not among the repository's files.  The spec describes the use made of them: the text
  is "attempted against an ordered list of candidate layouts", and a layout matches when
  the whole text has its shape and names a real calendar date.  In a layout, \<open>d\<close> and \<open>M\<close>
  read a day and a month of one or two digits (\<open>dd\<close> and \<open>MM\<close> read up to two digits),
  \<open>yyyy\<close> reads a year of up to four digits, and any other character stands for itself.
  The year must be positive, the month from 1 to 12 and the day one of that month.  The
  result is the midnight that starts this day in the host's time zone.
\<close>

datatype layout_token = Tok_d | Tok_dd | Tok_M | Tok_MM | Tok_yyyy | Lit char

text \<open>The digits a token reads at the start of the text, and the rest of the text.\<close>

definition take_digits :: "nat \<Rightarrow> string \<Rightarrow> (string \<times> string) option" where
  "take_digits n s =
     (let ds = takeWhile isDigit (take n s)
      in if ds = [] then None else Some (ds, drop (length ds) s))"

text \<open>\<open>/^(3[0-1]|[0-2]?\d)/\<close> for \<open>d\<close> and \<open>/^(1[0-2]|0?\d)/\<close> for \<open>M\<close>.\<close>

definition day_digits :: "string \<Rightarrow> (string \<times> string) option" where
  "day_digits s =
     (case s of
        [] \<Rightarrow> None
      | [a] \<Rightarrow> if isDigit a then Some ([a], []) else None
      | a # b # r \<Rightarrow>
          if a = CHR ''3'' \<and> (b = CHR ''0'' \<or> b = CHR ''1'') then Some ([a, b], r)
          else if a \<in> set ''012'' \<and> isDigit b then Some ([a, b], r)
          else if isDigit a then Some ([a], b # r)
          else None)"

definition month_digits :: "string \<Rightarrow> (string \<times> string) option" where
  "month_digits s =
     (case s of
        [] \<Rightarrow> None
      | [a] \<Rightarrow> if isDigit a then Some ([a], []) else None
      | a # b # r \<Rightarrow>
          if a = CHR ''1'' \<and> b \<in> set ''012'' then Some ([a, b], r)
          else if a = CHR ''0'' \<and> isDigit b then Some ([a, b], r)
          else if isDigit a then Some ([a], b # r)
          else None)"

record date_parts =
  part_year :: "int option"
  part_month :: "int option"
  part_day :: "int option"

fun read_layout :: "layout_token list \<Rightarrow> string \<Rightarrow> date_parts \<Rightarrow> date_parts option" where
  "read_layout [] s parts = (if list_all isWhiteSpace s then Some parts else None)"
| "read_layout (Lit c # ts) s parts =
     (case s of
        [] \<Rightarrow> None
      | a # r \<Rightarrow> if a = c then read_layout ts r parts else None)"
| "read_layout (Tok_d # ts) s parts =
     (case day_digits s of
        None \<Rightarrow> None
      | Some (ds, r) \<Rightarrow> read_layout ts r (parts\<lparr>part_day := Some (int (digits_val ds))\<rparr>))"
| "read_layout (Tok_dd # ts) s parts =
     (case take_digits 2 s of
        None \<Rightarrow> None
      | Some (ds, r) \<Rightarrow> read_layout ts r (parts\<lparr>part_day := Some (int (digits_val ds))\<rparr>))"
| "read_layout (Tok_M # ts) s parts =
     (case month_digits s of
        None \<Rightarrow> None
      | Some (ds, r) \<Rightarrow> read_layout ts r (parts\<lparr>part_month := Some (int (digits_val ds))\<rparr>))"
| "read_layout (Tok_MM # ts) s parts =
     (case take_digits 2 s of
        None \<Rightarrow> None
      | Some (ds, r) \<Rightarrow> read_layout ts r (parts\<lparr>part_month := Some (int (digits_val ds))\<rparr>))"
| "read_layout (Tok_yyyy # ts) s parts =
     (case take_digits 4 s of
        None \<Rightarrow> None
      | Some (ds, r) \<Rightarrow> read_layout ts r (parts\<lparr>part_year := Some (int (digits_val ds))\<rparr>))"

definition isLeapYear :: "int \<Rightarrow> bool" where
  "isLeapYear y = (y mod 400 = 0 \<or> (y mod 4 = 0 \<and> y mod 100 \<noteq> 0))"

definition daysInMonth :: "int \<Rightarrow> int \<Rightarrow> int" where
  "daysInMonth y m =
     (if m = 2 then (if isLeapYear y then 29 else 28)
      else if m = 4 \<or> m = 6 \<or> m = 9 \<or> m = 11 then 30
      else 31)"

text \<open>\<open>parse(raw, layout, new Date())\<close> when the result is valid (\<open>None\<close> for an invalid
  date); \<open>tz\<close> is the offset of the host's time zone in milliseconds.\<close>

definition parse_layout :: "int \<Rightarrow> string \<Rightarrow> layout_token list \<Rightarrow> jsdate option" where
  "parse_layout tz raw layout =
     (case read_layout layout raw \<lparr>part_year = None, part_month = None, part_day = None\<rparr> of
        None \<Rightarrow> None
      | Some parts \<Rightarrow>
          (case (part_year parts, part_month parts, part_day parts) of
             (Some y, Some m, Some d) \<Rightarrow>
               if 0 < y \<and> 1 \<le> m \<and> m \<le> 12 \<and> 1 \<le> d \<and> d \<le> daysInMonth y m
               then Some (Date (days_from_civil y m d * msPerDay - tz))
               else None
           | _ \<Rightarrow> None))"

text \<open>\<open>['d/M/yyyy', 'dd/MM/yyyy', 'M/d/yyyy', 'MM/dd/yyyy', 'd-M-yyyy', 'dd-MM-yyyy']\<close>.\<close>

definition patterns :: "layout_token list list" where
  "patterns =
     [[Tok_d, Lit (CHR ''/''), Tok_M, Lit (CHR ''/''), Tok_yyyy],
      [Tok_dd, Lit (CHR ''/''), Tok_MM, Lit (CHR ''/''), Tok_yyyy],
      [Tok_M, Lit (CHR ''/''), Tok_d, Lit (CHR ''/''), Tok_yyyy],
      [Tok_MM, Lit (CHR ''/''), Tok_dd, Lit (CHR ''/''), Tok_yyyy],
      [Tok_d, Lit (CHR ''-''), Tok_M, Lit (CHR ''-''), Tok_yyyy],
      [Tok_dd, Lit (CHR ''-''), Tok_MM, Lit (CHR ''-''), Tok_yyyy]]"

text \<open>The loop over the patterns: the first valid result.\<close>

fun first_valid :: "int \<Rightarrow> string \<Rightarrow> layout_token list list \<Rightarrow> jsdate option" where
  "first_valid tz raw [] = None"
| "first_valid tz raw (p # ps) =
     (case parse_layout tz raw p of
        Some dt \<Rightarrow> Some dt
      | None \<Rightarrow> first_valid tz raw ps)"

text \<open>\<open>dc && dc.y && dc.m && dc.d\<close>, and the date built from it.\<close>

definition serial_date :: "jsnum \<Rightarrow> jsdate option" where
  "serial_date n =
     (case n of
        Fin v \<Rightarrow>
          (case parse_date_code v of
             None \<Rightarrow> None
           | Some (y, m, d) \<Rightarrow>
               if y \<noteq> 0 \<and> m \<noteq> 0 \<and> d \<noteq> 0 then Some (utc_noon y m d) else None)
      | _ \<Rightarrow> None)"

text \<open>\<open>/^\d+(\.\d+)?$/\<close>.\<close>

definition isNumericString :: "string \<Rightarrow> bool" where
  "isNumericString s =
     (let ip = takeWhile isDigit s;
          r = dropWhile isDigit s
      in ip \<noteq> [] \<and>
         (r = [] \<or> (hd r = CHR ''.'' \<and> tl r \<noteq> [] \<and> list_all isDigit (tl r))))"

text \<open>\<open>!value\<close> for a cell.\<close>

fun falsy :: "cell \<Rightarrow> bool" where
  "falsy CUndefined = True"
| "falsy CNull = True"
| "falsy (CBool b) = (\<not> b)"
| "falsy (CNum n) = (\<not> truthy n)"
| "falsy (CStr s) = (s = [])"

text \<open>The part of \<open>parseLedgerDate\<close> from \<open>const raw = String(value).trim()\<close> on.\<close>

definition parseLedgerDateText :: "int \<Rightarrow> string \<Rightarrow> jsdate option" where
  "parseLedgerDateText tz str =
     (let raw = trim str
      in if raw = [] then None
         else
           case (if isNumericString raw \<and> isFinite (stringToNumber raw)
                 then serial_date (stringToNumber raw) else None) of
             Some dt \<Rightarrow> Some dt
           | None \<Rightarrow> first_valid tz raw patterns)"

definition parseLedgerDate :: "int \<Rightarrow> cell \<Rightarrow> jsdate option" where
  "parseLedgerDate tz v =
     (if falsy v then None
      else
        case (case v of CNum n \<Rightarrow> if isFinite n then serial_date n else None | _ \<Rightarrow> None) of
          Some dt \<Rightarrow> Some dt
        | None \<Rightarrow> parseLedgerDateText tz (toStr v))"

section \<open>The canonical ledger row\<close>

text \<open>
  The object that \<open>coerceLedgerRow\<close> and \<open>parseTransactionBlock\<close> build.  A field that
  holds \<open>null\<close> is \<open>None\<close>.
\<close>

record ledger_row =
  CD :: string
  NUMBER :: string
  DATE :: "jsdate option"
  DUE_DATE :: "jsdate option"
  PARTICULARS :: string
  SECURITY :: string
  NO_OF_SHARES :: "jsnum option"
  CURRENCY :: string
  UNIT_PRICE :: "jsnum option"
  FX_AMT :: "jsnum option"
  FX_RUNNING_BAL :: "jsnum option"
  PHP_DEBIT :: "jsnum option"
  PHP_CREDIT :: "jsnum option"
  PHP_RUNNING_BAL :: "jsnum option"

definition isDividendRow :: "ledger_row \<Rightarrow> bool" where
  "isDividendRow row =
     (let cd = toUpperCase (trim (CD row));
          particulars = toLowerCase (PARTICULARS row)
      in cd = ''CM'' \<and>
         (includes_str particulars ''cash dividend'' \<or> includes_str particulars ''coupon payment''))"

definition isTradeRow :: "ledger_row \<Rightarrow> bool" where
  "isTradeRow row =
     (let cd = toUpperCase (trim (CD row)) in cd = ''BI'' \<or> cd = ''SI'')"

section \<open>Errors\<close>

text \<open>Every failure of the loaders is \<open>throw new Error(message)\<close>.  The spec names them by
  kind: "Missing file data" is its MissingDataError, "Unsupported file type..." its
  UnsupportedFormatError, and "Could not find header row...", "No ledger rows found" and
  "Missing required columns: ..." its SchemaError.\<close>

datatype error = Error string

section \<open>The tabular adapters (fmsecLedgerCsv.js)\<close>

text \<open>\<open>parseCsvLine\<close>: the loop over the characters, with the fields so far, the current
  field and whether the position is inside quotes.\<close>

fun parseCsvLine_loop :: "string \<Rightarrow> string list \<Rightarrow> string \<Rightarrow> bool \<Rightarrow> string list" where
  "parseCsvLine_loop [] out current inQuotes = out @ [current]"
| "parseCsvLine_loop [ch] out current inQuotes =
     (if inQuotes then
        (if ch = CHR 0x22 then out @ [current] else out @ [current @ [ch]])
      else if ch = CHR '','' then out @ [current] @ [[]]
      else if ch = CHR 0x22 then out @ [current]
      else out @ [current @ [ch]])"
| "parseCsvLine_loop (ch # nxt # rest) out current inQuotes =
     (if inQuotes then
        (if ch = CHR 0x22 then
           (if nxt = CHR 0x22 then parseCsvLine_loop rest out (current @ [CHR 0x22]) True
            else parseCsvLine_loop (nxt # rest) out current False)
         else parseCsvLine_loop (nxt # rest) out (current @ [ch]) True)
      else if ch = CHR '','' then parseCsvLine_loop (nxt # rest) (out @ [current]) [] False
      else if ch = CHR 0x22 then parseCsvLine_loop (nxt # rest) out current True
      else parseCsvLine_loop (nxt # rest) out (current @ [ch]) False)"

definition parseCsvLine :: "string \<Rightarrow> string list" where
  "parseCsvLine line = parseCsvLine_loop line [] [] False"

text \<open>Every maximal run of characters that satisfy \<open>P\<close> is replaced by \<open>r\<close>
  (\<open>s.replace(/\s+/g, r)\<close> for white space); \<open>inRun\<close> tells that the position is inside a
  run.\<close>

fun replace_runs :: "(char \<Rightarrow> bool) \<Rightarrow> string \<Rightarrow> bool \<Rightarrow> string \<Rightarrow> string" where
  "replace_runs P r inRun [] = []"
| "replace_runs P r inRun (c # s) =
     (if P c then (if inRun then replace_runs P r True s else r @ replace_runs P r True s)
      else c # replace_runs P r False s)"

definition collapseSpaces :: "string \<Rightarrow> string" where
  "collapseSpaces s = replace_runs isWhiteSpace '' '' False s"

text \<open>\<open>normalizeHeaderCell\<close>.  In the last step, \<open>/__+/g\<close> replaces the runs of two or more
  underscores by one; a run of one is its own replacement.\<close>

definition normalizeHeaderCell :: "cell \<Rightarrow> string" where
  "normalizeHeaderCell v =
     (let raw = trim (toStrOrEmpty v)
      in if raw = [] then []
         else
           let collapsed = collapseSpaces raw;
               upper = toUpperCase collapsed
           in if upper = ''PHP D E B I T'' then ''PHP_DEBIT''
              else if upper = ''PHP C R E D I T'' then ''PHP_CREDIT''
              else replace_runs (\<lambda>c. c = CHR ''_'') ''_'' False
                     (replace_runs isWhiteSpace ''_'' False
                        (filter (\<lambda>c. c \<noteq> CHR ''.'') upper)))"

text \<open>The raw row \<open>obj\<close>: a property that was never set reads as \<open>undefined\<close>.\<close>

type_synonym raw_row = "string \<Rightarrow> cell"

text \<open>\<open>r[c]\<close>.\<close>

definition cell_at :: "cell list \<Rightarrow> nat \<Rightarrow> cell" where
  "cell_at r c = (if c < length r then r ! c else CUndefined)"

text \<open>The loop \<open>for (c = 0; c < headerRow.length; c++)\<close> that fills \<open>obj\<close>.\<close>

fun fill_row :: "string list \<Rightarrow> cell list \<Rightarrow> nat \<Rightarrow> raw_row \<Rightarrow> raw_row" where
  "fill_row [] r c obj = obj"
| "fill_row (key # keys) r c obj =
     (if key = [] then fill_row keys r (Suc c) obj
      else fill_row keys r (Suc c) (obj(key := cell_at r c)))"

definition make_row :: "string list \<Rightarrow> cell list \<Rightarrow> raw_row" where
  "make_row headerRow r = fill_row headerRow r 0 (\<lambda>key. CUndefined)"

text \<open>\<open>a ?? b\<close> on cells.\<close>

fun nullish_or :: "cell \<Rightarrow> cell \<Rightarrow> cell" where
  "nullish_or CUndefined b = b"
| "nullish_or CNull b = b"
| "nullish_or a b = a"

definition coerceLedgerRow :: "int \<Rightarrow> raw_row \<Rightarrow> ledger_row" where
  "coerceLedgerRow tz rawRow =
     \<lparr> CD = trim (toStrOrEmpty (rawRow ''CD'')),
       NUMBER = trim (toStrOrEmpty (rawRow ''NUMBER'')),
       DATE = parseLedgerDate tz (rawRow ''DATE''),
       DUE_DATE = parseLedgerDate tz (rawRow ''DUE_DATE''),
       PARTICULARS = trim (toStrOrEmpty (rawRow ''PARTICULARS'')),
       SECURITY = trim (toStrOrEmpty (rawRow ''SECURITY'')),
       NO_OF_SHARES =
         parseAmount
           (nullish_or (rawRow ''NO._OF_SHARES'')
              (nullish_or (rawRow ''NO_OF_SHARES'') (rawRow ''NO_Of_SHARES''))),
       CURRENCY = trim (toStrOrEmpty (rawRow ''CURRENCY'')),
       UNIT_PRICE = parseAmount (rawRow ''UNIT_PRICE''),
       FX_AMT = parseAmount (rawRow ''FX_AMT''),
       FX_RUNNING_BAL = parseAmount (rawRow ''FX_RUNNING_BAL''),
       PHP_DEBIT = parseAmount (rawRow ''PHP_DEBIT''),
       PHP_CREDIT = parseAmount (rawRow ''PHP_CREDIT''),
       PHP_RUNNING_BAL = parseAmount (rawRow ''PHP_RUNNING_BAL'') \<rparr>"

text \<open>\<open>rows.findIndex(p)\<close>, \<open>None\<close> for \<open>-1\<close>.\<close>

fun findIndex :: "('a \<Rightarrow> bool) \<Rightarrow> 'a list \<Rightarrow> nat option" where
  "findIndex p [] = None"
| "findIndex p (x # xs) = (if p x then Some 0 else map_option Suc (findIndex p xs))"

definition isMarkerCell :: "cell \<Rightarrow> bool" where
  "isMarkerCell c = (toUpperCase (trim (toStrOrEmpty c)) = ''CD'')"

definition isHeaderRow :: "cell list \<Rightarrow> bool" where
  "isHeaderRow r = list_ex isMarkerCell r"

text \<open>The body of the loop over the data rows, shared by the two adapters up to the test
  on the length of a worksheet row.\<close>

definition data_row :: "int \<Rightarrow> string list \<Rightarrow> cell list \<Rightarrow> ledger_row option" where
  "data_row tz headerRow r =
     (let obj = make_row headerRow r
      in if trim (toStrOrEmpty (obj ''CD'')) = [] then None
         else Some (coerceLedgerRow tz obj))"

text \<open>\<open>parseLedgerRowsFromWorksheet\<close>, on the rows that \<open>sheet_to_json\<close> gives.\<close>

definition parseLedgerRowsFromWorksheet :: "int \<Rightarrow> cell list list \<Rightarrow> error + ledger_row list" where
  "parseLedgerRowsFromWorksheet tz rows =
     (if rows = [] then Inr []
      else
        case findIndex isHeaderRow rows of
          None \<Rightarrow> Inl (Error ''Could not find header row (CD, NUMBER, DATE, ...) in CSV'')
        | Some headerIndex \<Rightarrow>
            let headerRow = map normalizeHeaderCell (rows ! headerIndex)
            in Inr (List.map_filter
                      (\<lambda>r. if r = [] then None else data_row tz headerRow r)
                      (drop (Suc headerIndex) rows)))"

text \<open>\<open>text.split(/\r?\n/)\<close>: \<open>current\<close> is the line read so far.\<close>

fun split_lines_from :: "string \<Rightarrow> string \<Rightarrow> string list" where
  "split_lines_from current [] = [current]"
| "split_lines_from current [c] =
     (if c = CHR 0x0A then [current, []] else [current @ [c]])"
| "split_lines_from current (c # d # s) =
     (if c = CHR 0x0A then current # split_lines_from [] (d # s)
      else if c = CHR 0x0D \<and> d = CHR 0x0A then current # split_lines_from [] s
      else split_lines_from (current @ [c]) (d # s))"

definition split_lines :: "string \<Rightarrow> string list" where
  "split_lines s = split_lines_from [] s"

definition isCsvHeaderLine :: "string \<Rightarrow> bool" where
  "isCsvHeaderLine l = startsWith (toUpperCase (trim l)) ''CD,NUMBER,DATE,''"

text \<open>The adapter of delimited text, from the non-blank lines on.\<close>

definition rows_from_lines :: "int \<Rightarrow> string list \<Rightarrow> error + ledger_row list" where
  "rows_from_lines tz lines =
     (case findIndex isCsvHeaderLine lines of
        None \<Rightarrow> Inl (Error ''Could not find header row (CD, NUMBER, DATE, ...) in CSV'')
      | Some headerLineIndex \<Rightarrow>
          let headerCells = parseCsvLine (lines ! headerLineIndex);
              normalizedHeaders = map (\<lambda>h. normalizeHeaderCell (CStr h)) headerCells
          in Inr (List.map_filter
                    (\<lambda>l. data_row tz normalizedHeaders (map CStr (parseCsvLine l)))
                    (drop (Suc headerLineIndex) lines)))"

definition loadFmsecLedgerRowsFromCsvText :: "int \<Rightarrow> string \<Rightarrow> error + ledger_row list" where
  "loadFmsecLedgerRowsFromCsvText tz csvText =
     rows_from_lines tz (filter (\<lambda>l. trim l \<noteq> []) (split_lines csvText))"

text \<open>
  \<open>validateFmsecLedgerHeaders\<close> reads of the first row only which properties it has
  (\<open>k in sample\<close>), so a row is given here by the names of its properties.  The canonical
  rows have the fourteen of the object literal that builds them.
\<close>

definition required :: "string list" where
  "required = [''CD'', ''DATE'', ''PARTICULARS'', ''PHP_DEBIT'', ''PHP_CREDIT'']"

definition validateFmsecLedgerHeaders :: "string list list \<Rightarrow> error + unit" where
  "validateFmsecLedgerHeaders rows =
     (case rows of
        [] \<Rightarrow> Inl (Error ''No ledger rows found'')
      | sample # _ \<Rightarrow>
          let missing = filter (\<lambda>k. k \<notin> set sample) required
          in if missing \<noteq> [] then Inl (Error (''Missing required columns: '' @ join '', '' missing))
             else Inr ())"

definition properties :: "ledger_row \<Rightarrow> string list" where
  "properties row =
     [''CD'', ''NUMBER'', ''DATE'', ''DUE_DATE'', ''PARTICULARS'', ''SECURITY'', ''NO_OF_SHARES'',
      ''CURRENCY'', ''UNIT_PRICE'', ''FX_AMT'', ''FX_RUNNING_BAL'', ''PHP_DEBIT'', ''PHP_CREDIT'',
      ''PHP_RUNNING_BAL'']"

text \<open>\<open>validateFmsecLedgerHeaders(rows); return rows\<close>.\<close>

definition validated :: "ledger_row list \<Rightarrow> error + ledger_row list" where
  "validated rows =
     (case validateFmsecLedgerHeaders (map properties rows) of
        Inl e \<Rightarrow> Inl e
      | Inr _ \<Rightarrow> Inr rows)"

section \<open>The statement adapter (fmsecLedgerPdf.js)\<close>

text \<open>\<open>\w\<close>, and a test that holds at some position of a string.\<close>

definition isWordChar :: "char \<Rightarrow> bool" where
  "isWordChar c = (isUpper c \<or> isLower c \<or> isDigit c \<or> c = CHR ''_'')"

fun exists_at :: "(string \<Rightarrow> bool) \<Rightarrow> string \<Rightarrow> bool" where
  "exists_at P [] = P []"
| "exists_at P (c # s) = (if P (c # s) then True else exists_at P s)"

text \<open>
  The patterns with the flag \<open>i\<close> compare letters without regard to case: they are
  matched here against the upper-cased line (upper-casing changes no white space and keeps
  word characters word characters).
\<close>

text \<open>\<open>/\bPHP\b/i.test(line)\<close>; \<open>prevWord\<close> tells that the character before the position is
  a word character.\<close>

fun hasPhp_from :: "bool \<Rightarrow> string \<Rightarrow> bool" where
  "hasPhp_from prevWord [] = False"
| "hasPhp_from prevWord (c # s) =
     (if \<not> prevWord \<and> startsWith (c # s) ''PHP'' \<and>
         (case drop 3 (c # s) of [] \<Rightarrow> True | d # r \<Rightarrow> \<not> isWordChar d)
      then True
      else hasPhp_from (isWordChar c) s)"

definition hasPhp :: "string \<Rightarrow> bool" where
  "hasPhp line = hasPhp_from False (toUpperCase line)"

text \<open>
  The money pattern \<open>/\(?-?\d{1,3}(?:,\d{3})*(?:\.\d{2})\)?/\<close> at the start of a string, part
  by part from the right: each function gives the text its part of the pattern and all that
  follows it match, trying the longer alternative first as the pattern does.
\<close>

definition money_tail :: "string \<Rightarrow> string option" where
  "money_tail v =
     (case v of
        p # d1 # d2 # r \<Rightarrow>
          if p = CHR ''.'' \<and> isDigit d1 \<and> isDigit d2
          then Some ([p, d1, d2] @ (if take 1 r = '')'' then '')'' else []))
          else None
      | _ \<Rightarrow> None)"

fun money_groups :: "string \<Rightarrow> string option" where
  "money_groups (c # d1 # d2 # d3 # r) =
     (if c = CHR '','' \<and> isDigit d1 \<and> isDigit d2 \<and> isDigit d3 then
        (case money_groups r of
           Some m \<Rightarrow> Some ([c, d1, d2, d3] @ m)
         | None \<Rightarrow> money_tail (c # d1 # d2 # d3 # r))
      else money_tail (c # d1 # d2 # d3 # r))"
| "money_groups u = money_tail u"

definition money_digits_of :: "nat \<Rightarrow> string \<Rightarrow> string option" where
  "money_digits_of k t =
     (if 1 \<le> k \<and> k \<le> length (takeWhile isDigit t)
      then map_option (\<lambda>m. take k t @ m) (money_groups (drop k t))
      else None)"

definition money_digits :: "string \<Rightarrow> string option" where
  "money_digits t =
     (case money_digits_of 3 t of
        Some m \<Rightarrow> Some m
      | None \<Rightarrow>
          (case money_digits_of 2 t of
             Some m \<Rightarrow> Some m
           | None \<Rightarrow> money_digits_of 1 t))"

definition money_sign :: "string \<Rightarrow> string option" where
  "money_sign t =
     (if take 1 t = ''-'' then
        (case money_digits (drop 1 t) of
           Some m \<Rightarrow> Some (CHR ''-'' # m)
         | None \<Rightarrow> money_digits t)
      else money_digits t)"

definition money_at :: "string \<Rightarrow> string option" where
  "money_at s =
     (if take 1 s = ''('' then
        (case money_sign (drop 1 s) of
           Some m \<Rightarrow> Some (CHR ''('' # m)
         | None \<Rightarrow> money_sign s)
      else money_sign s)"

text \<open>The loop \<open>while ((m = re.exec(s)))\<close>: the matches from left to right, each with its
  index; after a match the search goes on behind it (\<open>skip\<close> counts the characters of the
  last match still to pass).\<close>

fun money_scan :: "nat \<Rightarrow> nat \<Rightarrow> string \<Rightarrow> (string \<times> nat) list" where
  "money_scan skip i [] = []"
| "money_scan skip i (c # s) =
     (if 0 < skip then money_scan (skip - 1) (Suc i) s
      else
        case money_at (c # s) of
          Some m \<Rightarrow> (m, i) # money_scan (length m - 1) (Suc i) s
        | None \<Rightarrow> money_scan 0 (Suc i) s)"

definition findMoneyTokensWithIndex :: "string \<Rightarrow> (string \<times> nat) list" where
  "findMoneyTokensWithIndex line = money_scan 0 0 (filter (\<lambda>c. c \<noteq> CHR 0x0C) line)"

text \<open>\<open>tokens.length >= 2 ? tokens[tokens.length - 2] : tokens[0]\<close>, for a list that is
  not empty.\<close>

definition pick_token :: "(string \<times> nat) list \<Rightarrow> string \<times> nat" where
  "pick_token tokens =
     (if 2 \<le> length tokens then tokens ! (length tokens - 2) else tokens ! 0)"

text \<open>A line the movement can be read from: it has the currency marker, a money token,
  and the token picked is read as a finite number.\<close>

definition movement_line :: "string \<Rightarrow> bool" where
  "movement_line line =
     (hasPhp line \<and> findMoneyTokensWithIndex line \<noteq> [] \<and>
      normalizeMoney (CStr (fst (pick_token (findMoneyTokensWithIndex line)))) \<noteq> None)"

text \<open>The loop of \<open>extractMovementAmountFromPhpLine\<close>, over the lines from the last to the
  first.\<close>

fun movement_scan :: "string list \<Rightarrow> jsnum option" where
  "movement_scan [] = None"
| "movement_scan (line # earlier) =
     (if \<not> hasPhp line then movement_scan earlier
      else
        let tokens = findMoneyTokensWithIndex line
        in if tokens = [] then movement_scan earlier
           else
             let pick = pick_token tokens
             in case normalizeMoney (CStr (fst pick)) of
                  None \<Rightarrow> movement_scan earlier
                | Some movement \<Rightarrow> Some movement)"

definition extractMovementAmountFromPhpLine :: "string list \<Rightarrow> jsnum option" where
  "extractMovementAmountFromPhpLine blockLines = movement_scan (rev blockLines)"

text \<open>\<open>/^[\d\s,().-]+$/\<close> and \<open>/^[=\-]{6,}$/\<close>.\<close>

definition isAmountChars :: "string \<Rightarrow> bool" where
  "isAmountChars t =
     (t \<noteq> [] \<and> list_all (\<lambda>c. isDigit c \<or> isWhiteSpace c \<or> c \<in> set '',().-'') t)"

definition isSeparatorChar :: "char \<Rightarrow> bool" where
  "isSeparatorChar c = (c = CHR ''='' \<or> c = CHR ''-'')"

definition isSeparatorLine :: "string \<Rightarrow> bool" where
  "isSeparatorLine t = (6 \<le> length t \<and> list_all isSeparatorChar t)"

text \<open>\<open>s.replace(/\s*[=\-]{6,}\s*/g, ' ')\<close>: at a position where, after the white space
  there, six or more separator characters stand, all of them and the white space around
  them become one space.\<close>

fun replaceSeparators_from :: "nat \<Rightarrow> string \<Rightarrow> string" where
  "replaceSeparators_from skip [] = []"
| "replaceSeparators_from skip (c # s) =
     (if 0 < skip then replaceSeparators_from (skip - 1) s
      else
        let w1 = takeWhile isWhiteSpace (c # s);
            r1 = dropWhile isWhiteSpace (c # s);
            seps = takeWhile isSeparatorChar r1;
            w2 = takeWhile isWhiteSpace (dropWhile isSeparatorChar r1)
        in if 6 \<le> length seps
           then '' '' @ replaceSeparators_from (length w1 + length seps + length w2 - 1) s
           else c # replaceSeparators_from 0 s)"

definition replaceSeparators :: "string \<Rightarrow> string" where
  "replaceSeparators s = replaceSeparators_from 0 s"

text \<open>\<open>s.replace(/\s+0\.\d{2,4}\s*$/, '')\<close>: the first position from which the string is
  white space, \<open>0.\<close>, two to four digits and white space to the end; the string is cut
  there.\<close>

definition decimalTail :: "string \<Rightarrow> bool" where
  "decimalTail t =
     (t \<noteq> [] \<and> isWhiteSpace (hd t) \<and>
      (let r = dropWhile isWhiteSpace t;
           ds = takeWhile isDigit (drop 2 r);
           rest = dropWhile isDigit (drop 2 r)
       in take 2 r = ''0.'' \<and> 2 \<le> length ds \<and> length ds \<le> 4 \<and> list_all isWhiteSpace rest))"

fun stripDecimalTail :: "string \<Rightarrow> string" where
  "stripDecimalTail [] = []"
| "stripDecimalTail (c # s) = (if decimalTail (c # s) then [] else c # stripDecimalTail s)"

definition keptLine :: "string \<Rightarrow> bool" where
  "keptLine line =
     (let hasPhpMarker = hasPhp line;
          hasMoney = (findMoneyTokensWithIndex line \<noteq> []);
          mostlySpacesNumbers = (trim line \<noteq> [] \<and> isAmountChars (trim line))
      in \<not> (hasPhpMarker \<or> (hasMoney \<and> mostlySpacesNumbers)) \<and>
         trim line \<noteq> [] \<and> \<not> isSeparatorLine (trim line))"

definition extractParticulars :: "string list \<Rightarrow> string \<Rightarrow> string" where
  "extractParticulars blockLines firstLineRemainder =
     (let parts = (if firstLineRemainder \<noteq> [] then [trim firstLineRemainder] else []) @
                  map trim (filter keptLine (drop 1 blockLines));
          joined = trim (collapseSpaces (join '' '' parts));
          withoutSeparators = trim (collapseSpaces (replaceSeparators joined))
      in trim (stripDecimalTail withoutSeparators))"

text \<open>\<open>parseReference\<close>: the code and the number of a reference.\<close>

definition parseReference :: "string \<Rightarrow> string \<times> string" where
  "parseReference ref =
     (let raw = trim ref
      in if raw = [] then ([], [])
         else
           let letters = takeWhile isUpper raw;
               r = dropWhile isUpper raw
           in if 1 \<le> length letters \<and> length letters \<le> 6 \<and> take 1 r = ''-'' \<and>
                 drop 1 r \<noteq> [] \<and> list_all isDigit (drop 1 r)
              then (letters, drop 1 r)
              else
                case indexOf raw ''-'' of
                  None \<Rightarrow> (raw, [])
                | Some idx \<Rightarrow> (trim (take idx raw), trim (drop (idx + 1) raw)))"

text \<open>The start of a transaction: a date \<open>\d{2}\/\d{2}\/\d{4}\<close> after optional white space,
  white space, and a reference (\<open>\S+\<close>).  \<open>start_parts\<close> gives the date, the reference and
  what follows the reference.\<close>

definition start_parts :: "string \<Rightarrow> (string \<times> string \<times> string) option" where
  "start_parts line =
     (let s = dropWhile isWhiteSpace line;
          r = drop 10 s;
          t = dropWhile isWhiteSpace r
      in if match_mmddyyyy (take 10 s) \<noteq> None \<and> r \<noteq> [] \<and> isWhiteSpace (hd r) \<and> t \<noteq> []
         then Some (take 10 s, takeWhile (\<lambda>c. \<not> isWhiteSpace c) t,
                    dropWhile (\<lambda>c. \<not> isWhiteSpace c) t)
         else None)"

definition isTransactionStartLine :: "string \<Rightarrow> bool" where
  "isTransactionStartLine line = (start_parts line \<noteq> None)"

text \<open>\<open>first.match(/^\s*(\d{2}\/\d{2}\/\d{4})\s+(\S+)\s*(.*)$/)\<close>: the three groups.  The
  last group cannot hold a line terminator, so there is no match when one stands behind the
  reference and the white space after it.\<close>

definition first_line_match :: "string \<Rightarrow> (string \<times> string \<times> string) option" where
  "first_line_match line =
     (case start_parts line of
        None \<Rightarrow> None
      | Some (d, reference, after) \<Rightarrow>
          let remainder = dropWhile isWhiteSpace after
          in if list_ex (\<lambda>c. c = CHR 0x0A \<or> c = CHR 0x0D) remainder then None
             else Some (d, reference, remainder))"

text \<open>\<open>s.slice(a, b)\<close> for \<open>b\<close> within the string.\<close>

definition slice :: "nat \<Rightarrow> nat \<Rightarrow> string \<Rightarrow> string" where
  "slice a b s = take (b - a) (drop a s)"

definition parseTransactionBlock :: "string list \<Rightarrow> nat option \<Rightarrow> ledger_row option" where
  "parseTransactionBlock blockLines debitColIndex =
     (case blockLines of
        [] \<Rightarrow> None
      | first # others \<Rightarrow>
          (case first_line_match first of
             None \<Rightarrow> None
           | Some (m1, reference, m3) \<Rightarrow>
               (case parsePdfDateMmDdYyyy m1 of
                  None \<Rightarrow> None
                | Some InvalidDate \<Rightarrow> None
                | Some (Date t) \<Rightarrow>
                    let cd = fst (parseReference reference);
                        num = snd (parseReference reference);
                        firstRemainder =
                          (case debitColIndex of
                             None \<Rightarrow> m3
                           | Some col \<Rightarrow>
                               if 0 < col \<and> col < length first
                               then trim (slice
                                      ((case indexOf first reference of
                                          None \<Rightarrow> length reference - 1
                                        | Some i \<Rightarrow> i + length reference))
                                      col first)
                               else m3);
                        particulars = extractParticulars blockLines firstRemainder;
                        movement = extractMovementAmountFromPhpLine blockLines;
                        pUpper = toUpperCase (trim particulars);
                        cdUpper = toUpperCase (trim cd);
                        isCashDividend = (cdUpper = ''CM'' \<and> includes_str pUpper ''CASH DIVIDEND'');
                        isCouponPayment = (cdUpper = ''CM'' \<and> includes_str pUpper ''COUPON PAYMENT'');
                        isFutureTransaction =
                          (cdUpper = ''OR'' \<and> startsWith pUpper ''FUTURE TRANSACTION'');
                        isTrade = (cdUpper = ''BI'' \<or> cdUpper = ''SI'');
                        isNonCashDividend =
                          (cdUpper = ''IN'' \<and> includes_str pUpper ''STOCK DIVIDEND'');
                        isBondPurchase =
                          (cdUpper = ''DM'' \<and>
                           (includes_str pUpper ''PURCHASE OF RTB'' \<or>
                            includes_str pUpper ''PHILIPPINE GOVERNMENT'' \<or>
                            includes_str pUpper ''BOND ''));
                        amounts =
                          (case movement of
                             None \<Rightarrow> (Fin 0, Fin 0)
                           | Some mv \<Rightarrow>
                               if truthy mv \<and> isFinite mv then
                                 (if isTrade \<or> isNonCashDividend \<or> isBondPurchase
                                  then (Fin 0, Fin 0)
                                  else if isCashDividend \<or> isCouponPayment \<or> isFutureTransaction
                                  then (Fin 0, mv)
                                  else (mv, Fin 0))
                               else (Fin 0, Fin 0))
                    in Some \<lparr> CD = trim cd, NUMBER = trim num, DATE = Some (Date t),
                              DUE_DATE = None, PARTICULARS = trim particulars, SECURITY = [],
                              NO_OF_SHARES = None, CURRENCY = ''PHP'', UNIT_PRICE = None,
                              FX_AMT = None, FX_RUNNING_BAL = None,
                              PHP_DEBIT = Some (fst amounts), PHP_CREDIT = Some (snd amounts),
                              PHP_RUNNING_BAL = None \<rparr>)))"

text \<open>The three markers that end the transaction section.\<close>

fun words_at :: "string list \<Rightarrow> string \<Rightarrow> bool" where
  "words_at [] s = True"
| "words_at [w] s = startsWith s w"
| "words_at (w # v # ws) s =
     (if startsWith s w then
        (let r = drop (length w) s
         in if r \<noteq> [] \<and> isWhiteSpace (hd r)
            then words_at (v # ws) (dropWhile isWhiteSpace r)
            else False)
      else False)"

fun letters_at :: "string \<Rightarrow> string \<Rightarrow> bool" where
  "letters_at [] s = (case s of [] \<Rightarrow> True | d # r \<Rightarrow> \<not> isWordChar d)"
| "letters_at (l # ls) s =
     (case s of
        [] \<Rightarrow> False
      | c # r \<Rightarrow>
          if c = l
          then letters_at ls (if ls = [] then r else dropWhile isWhiteSpace r)
          else False)"

fun legend_from :: "bool \<Rightarrow> string \<Rightarrow> bool" where
  "legend_from prevWord [] = False"
| "legend_from prevWord (c # s) =
     (if \<not> prevWord \<and> letters_at ''LEGEND'' (c # s) then True
      else legend_from (isWordChar c) s)"

definition shouldEndTransactionSection :: "string \<Rightarrow> bool" where
  "shouldEndTransactionSection s =
     (let u = toUpperCase s
      in if exists_at (words_at [''ENDING'', ''SECURITY'', ''POSITION'']) u then True
         else if legend_from False u then True
         else includes_str u ''THIS IS A COMPUTER GENERATED STATEMENT'')"

text \<open>The state of the loop of \<open>parseFmsecLedgerRowsFromPdfText\<close>.\<close>

record pdf_state =
  st_rows :: "ledger_row list"
  st_debitColIndex :: "nat option"
  st_creditColIndex :: "nat option"
  st_currentBlock :: "string list option"

definition flush :: "pdf_state \<Rightarrow> pdf_state" where
  "flush st =
     (case st_currentBlock st of
        None \<Rightarrow> st
      | Some block \<Rightarrow>
          if block = [] then st
          else
            st\<lparr>st_rows :=
                 st_rows st @
                   (case parseTransactionBlock block (st_debitColIndex st) of
                      None \<Rightarrow> []
                    | Some row \<Rightarrow> if trim (CD row) \<noteq> [] then [row] else []),
               st_currentBlock := None\<rparr>)"

text \<open>The loop over the lines; at a section-end marker with a block open it flushes and
  stops (\<open>break\<close>).\<close>

fun scan_lines :: "pdf_state \<Rightarrow> string list \<Rightarrow> pdf_state" where
  "scan_lines st [] = st"
| "scan_lines st (s # ls) =
     (if st_currentBlock st \<noteq> None \<and> shouldEndTransactionSection s
      then (flush st)\<lparr>st_currentBlock := None\<rparr>
      else if includes_str s ''PRICE'' \<and> includes_str s ''DEBIT''
      then scan_lines (st\<lparr>st_debitColIndex := indexOf s ''DEBIT''\<rparr>) ls
      else if includes_str s ''CREDIT'' \<and> includes_str s ''BALANCE''
      then scan_lines (st\<lparr>st_creditColIndex := indexOf s ''CREDIT''\<rparr>) ls
      else if isTransactionStartLine s
      then scan_lines ((flush st)\<lparr>st_currentBlock := Some [s]\<rparr>) ls
      else
        case st_currentBlock st of
          None \<Rightarrow> scan_lines st ls
        | Some block \<Rightarrow> scan_lines (st\<lparr>st_currentBlock := Some (block @ [s])\<rparr>) ls)"

definition initial_state :: pdf_state where
  "initial_state =
     \<lparr> st_rows = [], st_debitColIndex = None, st_creditColIndex = None,
       st_currentBlock = None \<rparr>"

text \<open>The rows after the loop and the last \<open>flush()\<close>, for the lines of the text.\<close>

definition statement_rows :: "string list \<Rightarrow> ledger_row list" where
  "statement_rows lines = st_rows (flush (scan_lines initial_state lines))"

definition parseFmsecLedgerRowsFromPdfText :: "string \<Rightarrow> error + ledger_row list" where
  "parseFmsecLedgerRowsFromPdfText pdfText =
     validated (statement_rows (split_lines (filter (\<lambda>c. c \<noteq> CHR 0x0C) pdfText)))"

section \<open>The loader (uploadedLedger.js)\<close>



text \<open>
  \<open>buf.toString('utf8')\<close>, for a buffer given by its bytes.  A byte below \<open>0x80\<close> decodes
  to the code unit of the same value.  Any other byte is part of a sequence that decodes to
  a code unit of \<open>0x80\<close> or more (the byte-order mark \<open>EF BB BF\<close> to U+FEFF, an invalid
  sequence to U+FFFD), on which the strings of this development are not exact: such a
  buffer has no text here (\<open>None\<close>).
\<close>

definition toString_utf8 :: "string \<Rightarrow> string option" where
  "toString_utf8 buf =
     (if list_all (\<lambda>b. (of_char b :: nat) < 128) buf then Some buf else None)"


section \<open>Monthly cashflow (monthlyCashflow.js)\<close>

record month_row =
  month :: string
  deposit :: jsnum
  withdraw :: jsnum
  dividends :: jsnum

definition MONTH_LABELS :: "string list" where
  "MONTH_LABELS =
     [''Jan'', ''Feb'', ''Mar'', ''Apr'', ''May'', ''Jun'',
      ''Jul'', ''Aug'', ''Sep'', ''Oct'', ''Nov'', ''Dec'']"

definition initMonthRow :: "nat \<Rightarrow> month_row" where
  "initMonthRow monthIndex =
     \<lparr> month = (if monthIndex < length MONTH_LABELS then MONTH_LABELS ! monthIndex
                 else nat_to_string (monthIndex + 1)),
       deposit = Fin 0, withdraw = Fin 0, dividends = Fin 0 \<rparr>"

text \<open>\<open>addMoney\<close> returns \<open>undefined\<close> (\<open>None\<close>) for a falsy or non-finite amount, and
  the sum otherwise.\<close>

definition addMoney :: "jsnum \<Rightarrow> jsnum \<Rightarrow> jsnum option" where
  "addMoney target amount =
     (if \<not> truthy amount \<or> \<not> isFinite amount then None else Some (js_add target amount))"

text \<open>\<open>addMoney(target, amount ?? 0) ?? target\<close>, the new content of a bucket field.\<close>

definition added :: "jsnum \<Rightarrow> jsnum option \<Rightarrow> jsnum" where
  "added target amount =
     (case addMoney target (case amount of None \<Rightarrow> Fin 0 | Some a \<Rightarrow> a) of
        None \<Rightarrow> target
      | Some r \<Rightarrow> r)"

text \<open>The \<open>Map\<close> from month index to bucket, in insertion order: \<open>set\<close> on a key that is
  present keeps its place, a new key goes last.\<close>

type_synonym month_map = "(nat \<times> month_row) list"

fun map_set :: "nat \<Rightarrow> month_row \<Rightarrow> month_map \<Rightarrow> month_map" where
  "map_set k v [] = [(k, v)]"
| "map_set k v ((k', v') # rest) =
     (if k' = k then (k, v) # rest else (k', v') # map_set k v rest)"

text \<open>\<open>byMonth.get(m) ?? initMonthRow(m)\<close>.\<close>

definition bucket_at :: "month_map \<Rightarrow> nat \<Rightarrow> month_row" where
  "bucket_at byMonth m = (case map_of byMonth m of None \<Rightarrow> initMonthRow m | Some b \<Rightarrow> b)"

text \<open>\<open>row[dateField]\<close> when it is a \<open>Date\<close> object: only the two date fields of a row
  can hold one.\<close>

definition date_field :: "string \<Rightarrow> ledger_row \<Rightarrow> jsdate option" where
  "date_field dateField row =
     (if dateField = ''DATE'' then DATE row
      else if dateField = ''DUE_DATE'' then DUE_DATE row
      else None)"

text \<open>\<open>year && date.getFullYear() !== year\<close>, for \<open>options.year\<close> undefined (\<open>None\<close>) or a
  number.\<close>

definition year_given :: "jsnum option \<Rightarrow> bool" where
  "year_given year = (case year of None \<Rightarrow> False | Some y \<Rightarrow> truthy y)"

definition other_year :: "int \<Rightarrow> jsnum option \<Rightarrow> int \<Rightarrow> bool" where
  "other_year tz year t =
     (case year of None \<Rightarrow> False
      | Some y \<Rightarrow> truthy y \<and> Fin (of_int (getFullYear tz t)) \<noteq> y)"

text \<open>One pass of the loop body of \<open>computeMonthlyCashflow\<close>.\<close>

definition cashflow_step ::
  "int \<Rightarrow> jsnum option \<Rightarrow> string \<Rightarrow> month_map \<Rightarrow> ledger_row \<Rightarrow> month_map" where
  "cashflow_step tz year dateField byMonth row =
     (case date_field dateField row of
        None \<Rightarrow> byMonth
      | Some InvalidDate \<Rightarrow> byMonth
      | Some (Date t) \<Rightarrow>
          if other_year tz year t then byMonth
          else
            let monthIndex = getMonth tz t;
                current = bucket_at byMonth monthIndex
            in if isDividendRow row then
                 map_set monthIndex
                   (current\<lparr>dividends := added (dividends current) (PHP_CREDIT row)\<rparr>) byMonth
               else if isTradeRow row then map_set monthIndex current byMonth
               else
                 let cd = toUpperCase (trim (CD row));
                     particulars = toUpperCase (trim (PARTICULARS row));
                     isFutureTransactions =
                       (cd = ''OR'' \<and> startsWith particulars ''FUTURE TRANSACTION'');
                     current1 =
                       (if isFutureTransactions
                        then current\<lparr>deposit := added (deposit current) (PHP_CREDIT row)\<rparr>
                        else current);
                     current2 =
                       current1\<lparr>withdraw := added (withdraw current1) (PHP_DEBIT row)\<rparr>
                 in map_set monthIndex current2 byMonth)"

text \<open>The map after the loop over \<open>rows\<close>.\<close>

definition byMonth_after ::
  "int \<Rightarrow> jsnum option \<Rightarrow> string \<Rightarrow> ledger_row list \<Rightarrow> month_map" where
  "byMonth_after tz year dateField rows = foldl (cashflow_step tz year dateField) [] rows"

text \<open>\<open>options.dateField ?? 'DATE'\<close>.\<close>

definition chosen_field :: "string option \<Rightarrow> string" where
  "chosen_field dateFieldOpt = (case dateFieldOpt of None \<Rightarrow> ''DATE'' | Some f \<Rightarrow> f)"

definition computeMonthlyCashflow ::
  "int \<Rightarrow> ledger_row list \<Rightarrow> jsnum option \<Rightarrow> string option \<Rightarrow> month_row list" where
  "computeMonthlyCashflow tz rows year dateFieldOpt =
     (let dateField = chosen_field dateFieldOpt;
          byMonth = byMonth_after tz year dateField rows
      in if year_given year then map (bucket_at byMonth) [0..<12]
         else map snd (sort_key fst byMonth))"

text \<open>A row with every field empty, from which the examples are built.\<close>

definition blank_row :: ledger_row where
  "blank_row =
     \<lparr> CD = [], NUMBER = [], DATE = None, DUE_DATE = None, PARTICULARS = [], SECURITY = [],
       NO_OF_SHARES = None, CURRENCY = [], UNIT_PRICE = None, FX_AMT = None,
       FX_RUNNING_BAL = None, PHP_DEBIT = None, PHP_CREDIT = None, PHP_RUNNING_BAL = None \<rparr>"

text \<open>The date gate of the loop, as predicates on a row: the date field holds a valid
  date; it holds a valid date whose local year is the number \<open>y\<close>; and the month index of
  the row's date.\<close>

definition has_valid_date :: "string \<Rightarrow> ledger_row \<Rightarrow> bool" where
  "has_valid_date dateField row =
     (case date_field dateField row of Some (Date t) \<Rightarrow> True | _ \<Rightarrow> False)"

definition in_year :: "int \<Rightarrow> jsnum \<Rightarrow> string \<Rightarrow> ledger_row \<Rightarrow> bool" where
  "in_year tz y dateField row =
     (case date_field dateField row of
        Some (Date t) \<Rightarrow> Fin (of_int (getFullYear tz t)) = y
      | _ \<Rightarrow> False)"

definition row_month :: "int \<Rightarrow> string \<Rightarrow> ledger_row \<Rightarrow> nat" where
  "row_month tz dateField row =
     (case date_field dateField row of Some (Date t) \<Rightarrow> getMonth tz t | _ \<Rightarrow> 0)"

definition passes_gate :: "int \<Rightarrow> jsnum option \<Rightarrow> string \<Rightarrow> ledger_row \<Rightarrow> bool" where
  "passes_gate tz year dateField row =
     (case date_field dateField row of
        Some (Date t) \<Rightarrow> \<not> other_year tz year t
      | _ \<Rightarrow> False)"

text \<open>A predicate on every value of the map.\<close>

definition all_buckets :: "(nat \<Rightarrow> month_row \<Rightarrow> bool) \<Rightarrow> month_map \<Rightarrow> bool" where
  "all_buckets P bm = list_all (\<lambda>(k, v). P k v) bm"

text \<open>
  The aggregation rules in the words of the specification, against which the loop is
  compared.  Among the rows that are mapped to a month: the credit of a dividend row is
  added to \<open>dividends\<close>; the credit of a row that is neither a dividend nor a trade, has
  the code OR and a description starting with "FUTURE TRANSACTION" is added to \<open>deposit\<close>;
  the debit of every row that is neither a dividend nor a trade is added to \<open>withdraw\<close>.
\<close>

definition isDepositRow :: "ledger_row \<Rightarrow> bool" where
  "isDepositRow row =
     (\<not> isDividendRow row \<and> \<not> isTradeRow row \<and> toUpperCase (trim (CD row)) = ''OR'' \<and>
      startsWith (toUpperCase (trim (PARTICULARS row))) ''FUTURE TRANSACTION'')"

definition isWithdrawRow :: "ledger_row \<Rightarrow> bool" where
  "isWithdrawRow row = (\<not> isDividendRow row \<and> \<not> isTradeRow row)"

text \<open>The amounts, in the order of the rows, of the rows of kind \<open>counts\<close> that pass the
  date gate and fall in month \<open>m\<close>; and the bucket of month \<open>m\<close> that the specification
  describes: each field the amounts of its kind added one after the other, from 0.\<close>

definition contributions ::
  "int \<Rightarrow> jsnum option \<Rightarrow> string \<Rightarrow> nat \<Rightarrow> (ledger_row \<Rightarrow> bool) \<Rightarrow>
   (ledger_row \<Rightarrow> jsnum option) \<Rightarrow> ledger_row list \<Rightarrow> jsnum option list" where
  "contributions tz year dateField m counts amount rows =
     map amount
       (filter (\<lambda>row. passes_gate tz year dateField row \<and> row_month tz dateField row = m \<and>
                       counts row) rows)"

definition spec_bucket ::
  "int \<Rightarrow> jsnum option \<Rightarrow> string \<Rightarrow> ledger_row list \<Rightarrow> nat \<Rightarrow> month_row" where
  "spec_bucket tz year dateField rows m =
     \<lparr> month = MONTH_LABELS ! m,
       deposit = foldl added (Fin 0)
         (contributions tz year dateField m isDepositRow PHP_CREDIT rows),
       withdraw = foldl added (Fin 0)
         (contributions tz year dateField m isWithdrawRow PHP_DEBIT rows),
       dividends = foldl added (Fin 0)
         (contributions tz year dateField m isDividendRow PHP_CREDIT rows) \<rparr>"

text \<open>The three rows of the end-to-end scenario: a deposit on 2024-01-16, a cash dividend
  on 2024-02-05 and a buy on 2024-02-10 (each date at 12:00 UTC).\<close>

definition scenario_rows :: "ledger_row list" where
  "scenario_rows =
     [blank_row\<lparr>CD := ''OR'', DATE := Some (Date 1705406400000),
        PARTICULARS := ''FUTURE TRANSACTION - DEPOSIT'', PHP_CREDIT := Some (Fin 10000)\<rparr>,
      blank_row\<lparr>CD := ''CM'', DATE := Some (Date 1707134400000),
        PARTICULARS := ''CASH DIVIDEND XYZ CORP'', PHP_CREDIT := Some (Fin 250)\<rparr>,
      blank_row\<lparr>CD := ''BI'', DATE := Some (Date 1707566400000),
        PARTICULARS := ''BUY XYZ CORP'', PHP_DEBIT := Some (Fin 5000)\<rparr>]"

section \<open>Evaluation lemmas\<close>

lemma fl_not_NaN: "fl x \<noteq> NaN"
  by (simp add: fl_def split: option.splits)

text \<open>Evaluation of \<open>floor\<close> and \<open>ceiling\<close> on quotients of numerals.\<close>

lemma floor_rat_numeral_div:
  "\<lfloor>numeral a / numeral b :: rat\<rfloor> = numeral a div numeral b"
  using floor_divide_of_int_eq [of "numeral a" "numeral b", where ?'a = rat] by simp

lemma floor_rat_one_div:
  "\<lfloor>1 / numeral b :: rat\<rfloor> = 1 div numeral b"
  using floor_divide_of_int_eq [of 1 "numeral b", where ?'a = rat] by simp

lemma ceiling_rat_numeral_div:
  "\<lceil>numeral a / numeral b :: rat\<rceil> = - ((- numeral a) div numeral b)"
  using floor_divide_of_int_eq [of "- numeral a" "numeral b", where ?'a = rat]
  by (simp add: ceiling_def)

lemma ceiling_rat_one_div:
  "\<lceil>1 / numeral b :: rat\<rceil> = - ((- 1) div numeral b)"
  using floor_divide_of_int_eq [of "- 1" "numeral b", where ?'a = rat]
  by (simp add: ceiling_def)

lemmas fl_eval =
  fl_def fl_pos_def floor_log2_def Let_def pow2_def bit_length.simps round_half_even_def
  floor_rat_numeral_div floor_rat_one_div ceiling_rat_numeral_div ceiling_rat_one_div

lemma bit_length_pow2: "bit_length (2 ^ n) = Suc n"
  by (induction n) (simp_all add: bit_length.simps)

lemma floor_log2_huge: "floor_log2 huge = 1023"
proof -
  have "nat \<lfloor>(2::rat) ^ 1023\<rfloor> = 2 ^ 1023"
    by (simp only: floor_numeral_power nat_power_eq nat_numeral zero_le_numeral)
  then show ?thesis
    by (simp only: floor_log2_def huge_def bit_length_pow2) simp
qed

lemma fl_huge: "fl huge = Fin huge"
proof -
  have r: "round_half_even (huge / pow2 971) = 2 ^ 52"
    by (simp add: huge_def pow2_def round_half_even_def)
  have h: "0 < huge" "huge \<noteq> 0" "\<not> pow2 1024 \<le> huge" "of_int (2 ^ 52) * pow2 971 = huge"
    by (simp_all add: huge_def pow2_def)
  show ?thesis
    using h by (simp add: fl_def fl_pos_def floor_log2_huge r)
qed

lemma fl_huge_twice: "fl (huge + huge) = PInf"
  by (simp add: fl_def fl_pos_def huge_def pow2_def)

lemma fl_10000: "fl 10000 = Fin 10000"
  by (simp add: fl_eval)

lemma fl_250: "fl 250 = Fin 250"
  by (simp add: fl_eval)

lemma isFinite_iff: "isFinite n = (\<exists>q. n = Fin q)"
  by (cases n) simp_all

text \<open>Rounding overflows only from a magnitude of \<open>2^1023\<close> on.\<close>

lemma bit_length_le: "n < 2 ^ k \<Longrightarrow> bit_length n \<le> k"
proof (induction k arbitrary: n)
  case 0
  then show ?case by (simp add: bit_length.simps)
next
  case (Suc k)
  show ?case
  proof (cases "n = 0")
    case True
    then show ?thesis by (simp add: bit_length.simps)
  next
    case False
    have "n div 2 < 2 ^ k" using Suc.prems by simp
    then have "bit_length (n div 2) \<le> k" by (rule Suc.IH)
    then show ?thesis using False by (subst bit_length.simps) simp
  qed
qed

lemma pow2_powi: "pow2 e = 2 powi e"
proof (cases "0 \<le> e")
  case True
  then show ?thesis by (simp add: pow2_def power_int_def)
next
  case False
  have "inverse (2::rat) ^ nat (- e) = 1 / 2 ^ nat (- e)"
    by (simp only: inverse_eq_divide power_one_over)
  with False show ?thesis by (simp only: pow2_def power_int_def if_False)
qed

lemma pow2_pos: "0 < pow2 e"
  by (simp add: pow2_powi)

lemma pow2_mono: "a \<le> b \<Longrightarrow> pow2 a \<le> pow2 b"
  by (simp add: pow2_powi power_int_increasing)

lemma pow2_double: "pow2 e + pow2 e = pow2 (e + 1)"
  by (simp add: pow2_powi power_int_add)

lemma huge_pow2: "huge = pow2 1023"
  by (simp add: huge_def pow2_powi power_int_def del: power_numeral)

lemma floor_log2_le:
  assumes "0 < x" "x < huge"
  shows "floor_log2 x \<le> 1022"
proof (cases "1 \<le> x")
  case True
  have "x < of_int (2 ^ 1023)" using assms(2) by (simp add: huge_def del: power_numeral)
  then have "\<lfloor>x\<rfloor> < 2 ^ 1023" by (simp only: floor_less_iff)
  then have "nat \<lfloor>x\<rfloor> < 2 ^ 1023"
    by (simp add: nat_less_iff del: power_numeral)
  then have "bit_length (nat \<lfloor>x\<rfloor>) \<le> 1023" by (rule bit_length_le)
  then show ?thesis using True by (simp add: floor_log2_def)
next
  case False
  then show ?thesis by (simp add: floor_log2_def)
qed

lemma round_half_even_le: "of_int (round_half_even z) \<le> z + 1 / 2"
proof -
  define f where "f = \<lfloor>z\<rfloor>"
  define r where "r = z - of_int f"
  have f: "of_int f \<le> z" by (simp add: f_def)
  have z: "z = of_int f + r" by (simp add: r_def)
  have c: "round_half_even z = (if r < 1 / 2 then f else if 1 / 2 < r then f + 1
             else if even f then f else f + 1)"
    by (simp add: round_half_even_def Let_def f_def r_def)
  show ?thesis
  proof (cases "r < 1 / 2")
    case True
    then show ?thesis using f c by simp
  next
    case False
    then have "of_int (f + 1) \<le> z + 1 / 2" using z by simp
    then show ?thesis using f c by (auto split: if_splits)
  qed
qed

lemma fl_pos_small:
  assumes "0 < x" "x < huge"
  shows "\<exists>y. fl_pos x = Some y"
proof -
  define e where "e = max (floor_log2 x) (- 1022)"
  define ulp where "ulp = pow2 (e - 52)"
  define y where "y = of_int (round_half_even (x / ulp)) * ulp"
  have e: "e \<le> 1022" using floor_log2_le [OF assms] by (simp add: e_def)
  have u0: "0 < ulp" by (simp add: ulp_def pow2_pos)
  have u1: "ulp \<le> pow2 1023" unfolding ulp_def using e by (intro pow2_mono) simp
  have "y \<le> (x / ulp + 1 / 2) * ulp"
    unfolding y_def using u0 round_half_even_le [of "x / ulp"]
    by (simp only: mult_le_cancel_right_pos)
  also have "\<dots> = x + ulp / 2" using u0 by (simp add: field_simps)
  also have "\<dots> < pow2 1023 + pow2 1023" using assms(2) u0 u1 by (simp add: huge_pow2)
  also have "\<dots> = pow2 1024" using pow2_double [of 1023] by simp
  finally have y: "\<not> pow2 1024 \<le> y" by simp
  have "x < pow2 1023 + pow2 1023" using assms pow2_pos [of 1023] by (simp add: huge_pow2)
  then have x: "\<not> pow2 1024 \<le> x" using pow2_double [of 1023] by simp
  show ?thesis
    using x y by (simp add: fl_pos_def Let_def e_def [symmetric] ulp_def [symmetric] y_def [symmetric])
qed

lemma fl_small: "\<bar>x\<bar> < huge \<Longrightarrow> isFinite (fl x)"
proof -
  assume a: "\<bar>x\<bar> < huge"
  consider "x = 0" | "0 < x" | "x < 0" by linarith
  then show ?thesis
  proof cases
    case 1
    then show ?thesis by (simp add: fl_def)
  next
    case 2
    then have "x < huge" using a by simp
    with 2 obtain y where "fl_pos x = Some y" using fl_pos_small by blast
    with 2 show ?thesis by (simp add: fl_def)
  next
    case 3
    then have "0 < - x" "- x < huge" using a by simp_all
    then obtain y where "fl_pos (- x) = Some y" using fl_pos_small by blast
    with 3 show ?thesis by (simp add: fl_def)
  qed
qed

lemma js_add_overflow:
  assumes "\<not> isFinite (js_add (Fin y) (Fin a))"
  shows "(js_add (Fin y) (Fin a) = PInf \<or> js_add (Fin y) (Fin a) = NInf) \<and> huge \<le> \<bar>y + a\<bar>"
proof -
  have "\<not> \<bar>y + a\<bar> < huge" using assms fl_small [of "y + a"] by auto
  then have h: "huge \<le> \<bar>y + a\<bar>" by simp
  have "fl (y + a) = PInf \<or> fl (y + a) = NInf"
    using assms fl_not_NaN [of "y + a"] by (cases "fl (y + a)") auto
  with h show ?thesis by simp
qed

section \<open>Calendar arithmetic\<close>

lemma day_of_year_le:
  assumes "0 \<le> doe" "doe < 146097"
  shows "day_of_year doe \<le> 672"
proof -
  define N where "N = doe - doe div 1460 + doe div 36524 - doe div 146096"
  have f1: "doe div 1460 \<le> 100" using assms(2) by linarith
  have f2: "0 \<le> doe div 36524" using assms(1) by linarith
  have f2': "doe div 36524 \<le> 4" using assms(2) by linarith
  have f3: "doe div 146096 \<le> 1" using assms(2) by linarith
  have f3': "0 \<le> doe div 146096" using assms(1) by linarith
  have f0: "0 \<le> doe div 1460" using assms(1) by linarith
  have f0': "doe div 1460 \<le> doe" using assms(1) by linarith
  have N0: "0 \<le> N + 1" unfolding N_def using f0' f2 f3 by linarith
  have N1: "N \<le> 146100" unfolding N_def using assms(2) f0 f2' f3' by linarith
  have f4: "N - 364 \<le> 365 * (N div 365)" by linarith
  have y0: "- 1 \<le> N div 365" using N0 by linarith
  have y1: "N div 365 \<le> 400" using N1 by linarith
  have f5: "- 1 \<le> (N div 365) div 4" using y0 by linarith
  have f6: "(N div 365) div 100 \<le> 4" using y1 by linarith
  have "doe - (365 * (N div 365) + (N div 365) div 4 - (N div 365) div 100) \<le> 672"
    using f1 f2 f3 f4 f5 f6 unfolding N_def by linarith
  then show ?thesis by (simp add: day_of_year_def year_of_era_def N_def)
qed

lemma getMonth_lt_12: "getMonth tz t < 12"
proof -
  define doe where "doe = ((t + tz) div msPerDay + 719468) mod 146097"
  have "0 \<le> doe" "doe < 146097" by (simp_all add: doe_def)
  then have "day_of_year doe \<le> 672" by (rule day_of_year_le)
  have m: "(5 * day_of_year doe + 2) div 153 \<le> 21"
    using \<open>day_of_year doe \<le> 672\<close> by linarith
  have g: "\<And>x::int. x \<le> 21 \<Longrightarrow>
             (x < 10 \<longrightarrow> nat (2 + x) < 12) \<and> (\<not> x < 10 \<longrightarrow> nat (x - 10) < 12)"
    by auto
  show ?thesis
    using g [OF m] by (simp add: getMonth_def civil_from_days_def Let_def doe_def)
qed

section \<open>Properties of the monthly cashflow\<close>

lemma map_of_map_set: "map_of (map_set k v m) = (map_of m)(k \<mapsto> v)"
  by (induction m) (auto simp: fun_eq_iff)

lemma bucket_at_map_set:
  "bucket_at (map_set k v m) k' = (if k' = k then v else bucket_at m k')"
  by (simp add: bucket_at_def map_of_map_set)

lemma keys_map_set:
  "map fst (map_set k v m) = (if k \<in> set (map fst m) then map fst m else map fst m @ [k])"
proof (induction m)
  case Nil
  show ?case by simp
next
  case (Cons p m)
  obtain k' v' where p: "p = (k', v')" by (cases p)
  show ?case using Cons by (simp add: p)
qed

lemma added_None: "added x None = x"
  by (simp add: added_def addMoney_def)

lemma added_Some:
  "added x (Some a) = (if truthy a \<and> isFinite a then js_add x a else x)"
  by (simp add: added_def addMoney_def)

lemma byMonth_after_snoc:
  "byMonth_after tz year dateField (rows @ [row]) =
     cashflow_step tz year dateField (byMonth_after tz year dateField rows) row"
  by (simp add: byMonth_after_def)

lemma jan16_2024:
  "getMonth 0 1705406400000 = 0" "getFullYear 0 1705406400000 = 2024"
  by (code_simp, code_simp)

lemma step_not_passes:
  "\<not> passes_gate tz year df row \<Longrightarrow> cashflow_step tz year df bm row = bm"
  by (auto simp: passes_gate_def cashflow_step_def split: option.splits jsdate.splits)

lemma keys_step_passes:
  "passes_gate tz year df row \<Longrightarrow>
   map fst (cashflow_step tz year df bm row) =
     (if row_month tz df row \<in> set (map fst bm) then map fst bm
      else map fst bm @ [row_month tz df row])"
  by (auto simp: passes_gate_def cashflow_step_def row_month_def keys_map_set Let_def
      split: option.splits jsdate.splits)

lemma foldl_filter_id:
  "(\<And>s r. \<not> P r \<Longrightarrow> f s r = s) \<Longrightarrow> foldl f s (filter P rows) = foldl f s rows"
  by (induction rows arbitrary: s) auto

lemma byMonth_after_filter:
  "byMonth_after tz year df (filter (passes_gate tz year df) rows) = byMonth_after tz year df rows"
  unfolding byMonth_after_def
  by (rule foldl_filter_id) (simp add: step_not_passes)

lemma keys_foldl:
  "distinct (map fst bm) \<Longrightarrow>
   distinct (map fst (foldl (cashflow_step tz year df) bm rows)) \<and>
   set (map fst (foldl (cashflow_step tz year df) bm rows)) =
     set (map fst bm) \<union> row_month tz df ` {r \<in> set rows. passes_gate tz year df r}"
proof (induction rows arbitrary: bm)
  case Nil
  then show ?case by simp
next
  case (Cons r rows)
  show ?case
  proof (cases "passes_gate tz year df r")
    case True
    have d: "distinct (map fst (cashflow_step tz year df bm r))"
      using Cons.prems by (simp add: keys_step_passes [OF True])
    have s: "set (map fst (cashflow_step tz year df bm r)) =
             insert (row_month tz df r) (set (map fst bm))"
      by (auto simp add: keys_step_passes [OF True])
    from Cons.IH [OF d] s True show ?thesis by auto
  next
    case False
    with Cons show ?thesis by (auto simp: step_not_passes)
  qed
qed

lemma keys_byMonth_after:
  "distinct (map fst (byMonth_after tz year df rows))"
  "set (map fst (byMonth_after tz year df rows)) =
     row_month tz df ` {r \<in> set rows. passes_gate tz year df r}"
  using keys_foldl [of "[]" tz year df rows] by (simp_all add: byMonth_after_def)

lemma all_buckets_map_set:
  "all_buckets P bm \<Longrightarrow> P k v \<Longrightarrow> all_buckets P (map_set k v bm)"
  by (induction bm) (auto simp: all_buckets_def)

lemma all_buckets_bucket_at:
  "all_buckets P bm \<Longrightarrow> P m (initMonthRow m) \<Longrightarrow> P m (bucket_at bm m)"
  by (auto simp: all_buckets_def bucket_at_def list_all_iff split: option.splits dest!: map_of_SomeD)

lemma all_buckets_step:
  assumes inv: "all_buckets P bm"
    and init: "\<And>m. P m (initMonthRow m)"
    and upd: "\<And>m b x y z. P m b \<Longrightarrow>
        P m (b\<lparr>deposit := added (deposit b) x, withdraw := added (withdraw b) y,
              dividends := added (dividends b) z\<rparr>)"
  shows "all_buckets P (cashflow_step tz year df bm row)"
proof -
  have u1: "\<And>m b z. P m b \<Longrightarrow> P m (b\<lparr>dividends := added (dividends b) z\<rparr>)"
    using upd [where x = None and y = None] by (simp add: added_None)
  have u2: "\<And>m b y. P m b \<Longrightarrow> P m (b\<lparr>withdraw := added (withdraw b) y\<rparr>)"
    using upd [where x = None and z = None] by (simp add: added_None)
  have u3: "\<And>m b x y. P m b \<Longrightarrow>
      P m (b\<lparr>deposit := added (deposit b) x, withdraw := added (withdraw b) y\<rparr>)"
    using upd [where z = None] by (simp add: added_None)
  have b: "\<And>m. P m (bucket_at bm m)"
    using inv init by (rule all_buckets_bucket_at)
  have s: "\<And>k v. P k v \<Longrightarrow> all_buckets P (map_set k v bm)"
    using inv by (rule all_buckets_map_set)
  show ?thesis
  proof (cases "date_field df row")
    case None
    then show ?thesis using inv by (simp add: cashflow_step_def)
  next
    case (Some d)
    show ?thesis
    proof (cases d)
      case InvalidDate
      then show ?thesis using inv Some by (simp add: cashflow_step_def)
    next
      case (Date t)
      show ?thesis
        using inv Some Date b [of "getMonth tz t"]
        by (simp add: cashflow_step_def Let_def s u1 u2 u3)
    qed
  qed
qed

lemma all_buckets_foldl:
  assumes inv: "all_buckets P bm"
    and init: "\<And>m. P m (initMonthRow m)"
    and upd: "\<And>m b x y z. P m b \<Longrightarrow>
        P m (b\<lparr>deposit := added (deposit b) x, withdraw := added (withdraw b) y,
              dividends := added (dividends b) z\<rparr>)"
  shows "all_buckets P (foldl (cashflow_step tz year df) bm rows)"
  using inv
  by (induction rows arbitrary: bm) (auto intro: all_buckets_step init upd)

lemma all_buckets_after:
  assumes init: "\<And>m. P m (initMonthRow m)"
    and upd: "\<And>m b x y z. P m b \<Longrightarrow>
        P m (b\<lparr>deposit := added (deposit b) x, withdraw := added (withdraw b) y,
              dividends := added (dividends b) z\<rparr>)"
  shows "all_buckets P (byMonth_after tz year df rows)"
  unfolding byMonth_after_def
  by (rule all_buckets_foldl) (auto simp: all_buckets_def intro: init upd)

lemma month_label_inv:
  "all_buckets (\<lambda>k v. month v = month (initMonthRow k)) (byMonth_after tz year df rows)"
  by (rule all_buckets_after) auto

lemma not_NaN_added: "x \<noteq> NaN \<Longrightarrow> added x a \<noteq> NaN"
  by (cases a; cases x)
     (auto simp: added_None added_Some fl_not_NaN elim!: isFinite.elims)

lemma no_NaN_inv:
  "all_buckets (\<lambda>k v. deposit v \<noteq> NaN \<and> withdraw v \<noteq> NaN \<and> dividends v \<noteq> NaN)
     (byMonth_after tz year df rows)"
  by (rule all_buckets_after) (auto simp: initMonthRow_def not_NaN_added)

lemma insort_key_map: "map f (insort_key f x xs) = insort (f x) (map f xs)"
  by (induction xs) auto

lemma sort_key_map: "map f (sort_key f xs) = sort (map f xs)"
  by (induction xs) (auto simp: insort_key_map)

lemma sorted_keys:
  "distinct (map fst bm) \<Longrightarrow> map fst (sort_key fst bm) = sorted_list_of_set (set (map fst bm))"
proof -
  assume d: "distinct (map fst bm)"
  have "sorted_list_of_set (set (map fst bm)) = sort (remdups (map fst bm))"
    by (rule sorted_list_of_set_sort_remdups)
  also have "\<dots> = sort (map fst bm)" using d by (simp add: distinct_remdups_id)
  finally show ?thesis by (simp add: sort_key_map)
qed

lemma bucket_at_distinct:
  "distinct (map fst bm) \<Longrightarrow> (k, v) \<in> set bm \<Longrightarrow> bucket_at bm k = v"
  by (simp add: bucket_at_def)

lemma values_by_keys:
  assumes "distinct (map fst bm)"
  shows "map snd (sort_key fst bm) = map (bucket_at bm) (map fst (sort_key fst bm))"
proof -
  have "\<And>p. p \<in> set (sort_key fst bm) \<Longrightarrow> snd p = bucket_at bm (fst p)"
    using bucket_at_distinct [OF assms] by (metis prod.collapse set_sort)
  then show ?thesis by simp
qed

lemma passes_in_year:
  "truthy y \<Longrightarrow> passes_gate tz (Some y) df = in_year tz y df"
  by (auto simp: passes_gate_def in_year_def other_year_def fun_eq_iff
      split: option.splits jsdate.splits)

lemma passes_no_year:
  "\<not> year_given year \<Longrightarrow> passes_gate tz year df = has_valid_date df"
  by (auto simp: passes_gate_def has_valid_date_def other_year_def year_given_def fun_eq_iff
      split: option.splits jsdate.splits)

lemma labels_of_init: "map (\<lambda>m. month (initMonthRow m)) [0..<12] = MONTH_LABELS"
  by (simp add: initMonthRow_def MONTH_LABELS_def upt_rec [of _ "numeral n" for n] upt_rec [of _ "Suc n" for n])

lemma month_bucket_at:
  "month (bucket_at (byMonth_after tz year df rows) m) = month (initMonthRow m)"
  using all_buckets_bucket_at [OF month_label_inv, of m tz year df rows] by simp

lemma bucket_at_absent:
  "m \<notin> set (map fst bm) \<Longrightarrow> bucket_at bm m = initMonthRow m"
proof -
  assume "m \<notin> set (map fst bm)"
  then have "map_of bm m = None" by (simp add: map_of_eq_None_iff)
  then show ?thesis by (simp add: bucket_at_def)
qed


lemma length_MONTH_LABELS: "length MONTH_LABELS = 12"
  by (simp add: MONTH_LABELS_def)

lemma month_init: "m < 12 \<Longrightarrow> month (initMonthRow m) = MONTH_LABELS ! m"
  by (simp add: initMonthRow_def length_MONTH_LABELS)

lemma contributions_snoc:
  "contributions tz year df m P f (rows @ [r]) =
     contributions tz year df m P f rows @
       (if passes_gate tz year df r \<and> row_month tz df r = m \<and> P r then [f r] else [])"
  by (simp add: contributions_def)

lemma bucket_fields:
  "dividends (bucket_at (byMonth_after tz year df rows) m) =
     foldl added (Fin 0) (contributions tz year df m isDividendRow PHP_CREDIT rows) \<and>
   deposit (bucket_at (byMonth_after tz year df rows) m) =
     foldl added (Fin 0) (contributions tz year df m isDepositRow PHP_CREDIT rows) \<and>
   withdraw (bucket_at (byMonth_after tz year df rows) m) =
     foldl added (Fin 0) (contributions tz year df m isWithdrawRow PHP_DEBIT rows)"
proof (induction rows rule: rev_induct)
  case Nil
  show ?case
    by (simp add: byMonth_after_def bucket_at_def initMonthRow_def contributions_def)
next
  case (snoc r rows)
  show ?case
  proof (cases "passes_gate tz year df r")
    case False
    then show ?thesis
      using snoc by (simp add: byMonth_after_snoc step_not_passes contributions_snoc)
  next
    case True
    then obtain t where t: "date_field df r = Some (Date t)" "\<not> other_year tz year t"
      by (auto simp: passes_gate_def split: option.splits jsdate.splits)
    have rm: "row_month tz df r = getMonth tz t"
      using t by (simp add: row_month_def)
    note c = isDepositRow_def [of r] isWithdrawRow_def [of r]
    show ?thesis
      using snoc True t rm c
      by (auto simp add: byMonth_after_snoc contributions_snoc cashflow_step_def Let_def
          bucket_at_map_set)
  qed
qed

lemma bucket_at_spec:
  "m < 12 \<Longrightarrow> bucket_at (byMonth_after tz year df rows) m = spec_bucket tz year df rows m"
  using bucket_fields [of tz year df rows m] month_bucket_at [of tz year df rows m]
  by (simp add: spec_bucket_def month_init)

lemma foldl_added_overflow:
  "isFinite x \<Longrightarrow> \<not> isFinite (foldl added x cs) \<Longrightarrow>
   \<exists>cs1 a y cs2. cs = cs1 @ Some (Fin a) # cs2 \<and> foldl added x cs1 = Fin y \<and> a \<noteq> 0 \<and>
      \<not> isFinite (js_add (Fin y) (Fin a))"
proof (induction cs arbitrary: x)
  case Nil
  then show ?case by simp
next
  case (Cons c cs)
  show ?case
  proof (cases "isFinite (added x c)")
    case True
    from Cons.IH [OF True] Cons.prems(2)
    obtain cs1 a y cs2 where h: "cs = cs1 @ Some (Fin a) # cs2"
      "foldl added (added x c) cs1 = Fin y" "a \<noteq> 0" "\<not> isFinite (js_add (Fin y) (Fin a))"
      by auto
    have "c # cs = (c # cs1) @ Some (Fin a) # cs2" "foldl added x (c # cs1) = Fin y"
      using h by simp_all
    with h(3) h(4) show ?thesis by blast
  next
    case False
    from Cons.prems(1) obtain y where y: "x = Fin y" by (auto simp: isFinite_iff)
    from False y obtain a where a: "c = Some (Fin a)" "a \<noteq> 0"
      "\<not> isFinite (js_add (Fin y) (Fin a))"
      by (cases c) (auto simp: added_None added_Some isFinite_iff split: if_splits)
    have "c # cs = [] @ Some (Fin a) # cs" "foldl added x [] = Fin y"
      using a y by simp_all
    with a show ?thesis by blast
  qed
qed

lemmas str_eval =
  toUpperCase_def toLowerCase_def upperChar_def lowerChar_def trim_def trimStart_def
  trimEnd_def isWhiteSpace_def startsWith_def endsWith_def isDigit_def isUpper_def isLower_def

text \<open>
  C1.  First-match-wins classification of one row.  For a row that passes the date gate
  (its date field holds a valid date, of the target year when one is given), the bucket of
  its month after the row is the bucket before it with: the credit added to \<open>dividends\<close>
  and nothing else, when the code is CM and the description contains "cash dividend" or
  "coupon payment" in any letter case; no change, when the code is BI or SI; the credit
  added to \<open>deposit\<close> and the debit added to \<open>withdraw\<close>, when the code is OR and the
  description starts with FUTURE TRANSACTION; the debit added to \<open>withdraw\<close> otherwise.
  The buckets of the other months are untouched.  An amount counts when it is a truthy
  finite number.
\<close>

theorem classification_first_match:
  assumes "date_field dateField row = Some (Date t)"
    and "\<not> other_year tz year t"
  shows
    "(let before = byMonth_after tz year dateField rows;
          after = byMonth_after tz year dateField (rows @ [row]);
          c = bucket_at before (getMonth tz t);
          cd = toUpperCase (trim (CD row));
          credit = PHP_CREDIT row;
          debit = PHP_DEBIT row
      in bucket_at after (getMonth tz t) =
           (if cd = ''CM'' \<and>
               (includes_str (toLowerCase (PARTICULARS row)) ''cash dividend'' \<or>
                includes_str (toLowerCase (PARTICULARS row)) ''coupon payment'')
            then c\<lparr>dividends := added (dividends c) credit\<rparr>
            else if cd = ''BI'' \<or> cd = ''SI'' then c
            else if cd = ''OR'' \<and>
                    startsWith (toUpperCase (trim (PARTICULARS row))) ''FUTURE TRANSACTION''
            then c\<lparr>deposit := added (deposit c) credit, withdraw := added (withdraw c) debit\<rparr>
            else c\<lparr>withdraw := added (withdraw c) debit\<rparr>) \<and>
         (\<forall>m. m \<noteq> getMonth tz t \<longrightarrow> bucket_at after m = bucket_at before m) \<and>
         (\<forall>x a. added x (Some a) = (if truthy a \<and> isFinite a then js_add x a else x)) \<and>
         (\<forall>x. added x None = x))"
  using assms
  by (auto simp add: byMonth_after_snoc cashflow_step_def Let_def bucket_at_map_set
      isDividendRow_def isTradeRow_def added_None added_Some)

theorem classification_first_match_witness:
  "date_field ''DATE''
      (blank_row\<lparr>CD := ''or'', DATE := Some (Date 1705406400000),
         PARTICULARS := ''Future transaction - deposit'',
         PHP_DEBIT := Some (Fin 500), PHP_CREDIT := Some (Fin 10000)\<rparr>)
     = Some (Date 1705406400000) \<and>
   \<not> other_year 0 (Some (Fin 2024)) 1705406400000 \<and>
   bucket_at
     (byMonth_after 0 (Some (Fin 2024)) ''DATE''
        ([] @ [blank_row\<lparr>CD := ''or'', DATE := Some (Date 1705406400000),
                 PARTICULARS := ''Future transaction - deposit'',
                 PHP_DEBIT := Some (Fin 500), PHP_CREDIT := Some (Fin 10000)\<rparr>]))
     (getMonth 0 1705406400000)
   = \<lparr>month = ''Jan'', deposit = Fin 10000, withdraw = Fin 500, dividends = Fin 0\<rparr>"
proof -
  let ?row = "blank_row\<lparr>CD := ''or'', DATE := Some (Date 1705406400000),
         PARTICULARS := ''Future transaction - deposit'',
         PHP_DEBIT := Some (Fin 500), PHP_CREDIT := Some (Fin 10000)\<rparr>"
  have h1: "date_field ''DATE'' ?row = Some (Date 1705406400000)"
    by (simp add: date_field_def)
  have h2: "\<not> other_year 0 (Some (Fin 2024)) 1705406400000"
    by (simp add: other_year_def jan16_2024)
  have cd: "toUpperCase (trim ''or'') = ''OR''"
    by (simp add: str_eval)
  have p: "startsWith (toUpperCase (trim ''Future transaction - deposit'')) ''FUTURE TRANSACTION''"
    by (simp add: str_eval)
  have b0: "bucket_at (byMonth_after 0 (Some (Fin 2024)) ''DATE'' []) 0 = initMonthRow 0"
    by (simp add: byMonth_after_def bucket_at_def)
  have s1: "fl 10000 = Fin 10000" "fl 500 = Fin 500"
    by (simp_all add: fl_eval)
  from classification_first_match [OF h1 h2, of "[]"]
  have "bucket_at (byMonth_after 0 (Some (Fin 2024)) ''DATE'' ([] @ [?row]))
          (getMonth 0 1705406400000)
        = \<lparr>month = ''Jan'', deposit = Fin 10000, withdraw = Fin 500, dividends = Fin 0\<rparr>"
    by (simp add: Let_def cd p b0 jan16_2024 initMonthRow_def MONTH_LABELS_def added_Some s1
        del: append.simps)
  with h1 h2 show ?thesis by blast
qed

lemma cashflow_year:
  "year_given year \<Longrightarrow>
   computeMonthlyCashflow tz rows year dfo =
     map (bucket_at (byMonth_after tz year (chosen_field dfo) rows)) [0..<12]"
  by (simp add: computeMonthlyCashflow_def)

lemma cashflow_no_year:
  assumes n: "\<not> year_given year"
  shows "computeMonthlyCashflow tz rows year dfo =
     map (bucket_at (byMonth_after tz year (chosen_field dfo) rows))
       (sorted_list_of_set
          (row_month tz (chosen_field dfo) `
             {r \<in> set rows. has_valid_date (chosen_field dfo) r}))"
proof -
  let ?df = "chosen_field dfo"
  let ?bm = "byMonth_after tz year ?df rows"
  let ?ms = "sorted_list_of_set (row_month tz ?df ` {r \<in> set rows. has_valid_date ?df r})"
  have d: "distinct (map fst ?bm)" by (rule keys_byMonth_after)
  have k: "map fst (sort_key fst ?bm) = ?ms"
    using sorted_keys [OF d] by (simp only: keys_byMonth_after passes_no_year [OF n])
  show ?thesis
    using n values_by_keys [OF d] by (simp add: computeMonthlyCashflow_def k)
qed

lemma active_months_lt_12:
  "m \<in> set (sorted_list_of_set (row_month tz df ` {r \<in> set rows. P r})) \<Longrightarrow> m < 12"
  by (auto simp: row_month_def getMonth_lt_12 split: option.splits jsdate.splits)

lemma cashflow_spec:
  "computeMonthlyCashflow tz rows year dfo =
     map (spec_bucket tz year (chosen_field dfo) rows)
       (if year_given year then [0..<12]
        else sorted_list_of_set
          (row_month tz (chosen_field dfo) `
             {r \<in> set rows. has_valid_date (chosen_field dfo) r}))"
proof (cases "year_given year")
  case True
  then show ?thesis
    by (simp add: cashflow_year bucket_at_spec del: upt.simps)
next
  case False
  then show ?thesis
    using active_months_lt_12 [of _ tz "chosen_field dfo" rows "has_valid_date (chosen_field dfo)"]
    by (simp add: cashflow_no_year bucket_at_spec)
qed

text \<open>
  C7.  When a target year is given (\<open>options.year\<close> is a truthy number), the result has
  exactly 12 buckets, labelled Jan to Dec in this order; the bucket of each month is the one
  the loop leaves in the map for it (a fresh one when it left none), and it holds the amounts
  of the rows of that month, added in the order of the rows; only the rows whose date field
  holds a valid date of that year contribute (the result is that of the filtered rows); and
  the bucket of a month no such row falls in has all fields 0.  When no year is given, the
  result lists the buckets of exactly the months that some row with a valid date falls in,
  in ascending order of the month index, each labelled with its month.
\<close>

theorem month_completeness:
  "(\<forall>y. year = Some y \<and> truthy y \<longrightarrow>
      length (computeMonthlyCashflow tz rows year dfo) = 12 \<and>
      map month (computeMonthlyCashflow tz rows year dfo) = MONTH_LABELS \<and>
      computeMonthlyCashflow tz rows year dfo =
        map (bucket_at (byMonth_after tz year (chosen_field dfo) rows)) [0..<12] \<and>
      computeMonthlyCashflow tz rows year dfo =
        map (spec_bucket tz year (chosen_field dfo) rows) [0..<12] \<and>
      computeMonthlyCashflow tz rows year dfo =
        computeMonthlyCashflow tz (filter (in_year tz y (chosen_field dfo)) rows) year dfo \<and>
      (\<forall>m<12.
         m \<notin> row_month tz (chosen_field dfo) `
               {r \<in> set rows. in_year tz y (chosen_field dfo) r} \<longrightarrow>
         computeMonthlyCashflow tz rows year dfo ! m =
           \<lparr>month = MONTH_LABELS ! m, deposit = Fin 0, withdraw = Fin 0, dividends = Fin 0\<rparr>)) \<and>
   (\<not> year_given year \<longrightarrow>
      computeMonthlyCashflow tz rows year dfo =
        map (bucket_at (byMonth_after tz year (chosen_field dfo) rows))
          (sorted_list_of_set
             (row_month tz (chosen_field dfo) `
                {r \<in> set rows. has_valid_date (chosen_field dfo) r})) \<and>
      computeMonthlyCashflow tz rows year dfo =
        map (spec_bucket tz year (chosen_field dfo) rows)
          (sorted_list_of_set
             (row_month tz (chosen_field dfo) `
                {r \<in> set rows. has_valid_date (chosen_field dfo) r})) \<and>
      map month (computeMonthlyCashflow tz rows year dfo) =
        map (\<lambda>m. MONTH_LABELS ! m)
          (sorted_list_of_set
             (row_month tz (chosen_field dfo) `
                {r \<in> set rows. has_valid_date (chosen_field dfo) r})))"
proof (intro conjI allI impI)
  fix y
  assume y: "year = Some y \<and> truthy y"
  then have g: "year_given year" by (simp add: year_given_def)
  let ?df = "chosen_field dfo"
  let ?bm = "byMonth_after tz year ?df rows"
  show r: "computeMonthlyCashflow tz rows year dfo = map (bucket_at ?bm) [0..<12]"
    using g by (rule cashflow_year)
  show "computeMonthlyCashflow tz rows year dfo = map (spec_bucket tz year ?df rows) [0..<12]"
    using g cashflow_spec [of tz rows year dfo] by simp
  show "length (computeMonthlyCashflow tz rows year dfo) = 12"
    by (simp add: r)
  show "map month (computeMonthlyCashflow tz rows year dfo) = MONTH_LABELS"
    by (simp add: r month_bucket_at o_def labels_of_init del: upt.simps)
  have p: "passes_gate tz year ?df = in_year tz y ?df"
    using y passes_in_year by simp
  show "computeMonthlyCashflow tz rows year dfo =
        computeMonthlyCashflow tz (filter (in_year tz y ?df) rows) year dfo"
    using byMonth_after_filter [of tz year ?df rows]
    by (simp add: computeMonthlyCashflow_def p)
  fix m :: nat
  assume m: "m < 12"
    and absent: "m \<notin> row_month tz ?df ` {r \<in> set rows. in_year tz y ?df r}"
  have "m \<notin> set (map fst ?bm)"
    using absent by (simp only: keys_byMonth_after p) simp
  then have "bucket_at ?bm m = initMonthRow m" by (rule bucket_at_absent)
  then show "computeMonthlyCashflow tz rows year dfo ! m =
           \<lparr>month = MONTH_LABELS ! m, deposit = Fin 0, withdraw = Fin 0, dividends = Fin 0\<rparr>"
    using m by (simp add: r initMonthRow_def length_MONTH_LABELS del: upt.simps)
next
  assume n: "\<not> year_given year"
  let ?df = "chosen_field dfo"
  let ?bm = "byMonth_after tz year ?df rows"
  let ?ms = "sorted_list_of_set (row_month tz ?df ` {r \<in> set rows. has_valid_date ?df r})"
  show r: "computeMonthlyCashflow tz rows year dfo = map (bucket_at ?bm) ?ms"
    using n by (rule cashflow_no_year)
  show "computeMonthlyCashflow tz rows year dfo = map (spec_bucket tz year ?df rows) ?ms"
    using n cashflow_spec [of tz rows year dfo] by simp
  have lt: "\<And>m. m \<in> set ?ms \<Longrightarrow> m < 12"
    by (rule active_months_lt_12)
  have "\<And>m. m \<in> set ?ms \<Longrightarrow> month (bucket_at ?bm m) = MONTH_LABELS ! m"
    using lt by (simp add: month_bucket_at month_init)
  then show "map month (computeMonthlyCashflow tz rows year dfo) = map (\<lambda>m. MONTH_LABELS ! m) ?ms"
    by (simp add: r)
qed

lemma scenario_dates:
  "getMonth 0 1707134400000 = 1" "getFullYear 0 1707134400000 = 2024"
  "getMonth 0 1707566400000 = 1" "getFullYear 0 1707566400000 = 2024"
  by (code_simp, code_simp, code_simp, code_simp)

lemma scenario_in_year:
  "filter (in_year 0 (Fin 2024) ''DATE'') scenario_rows = scenario_rows"
  by (simp add: scenario_rows_def in_year_def date_field_def jan16_2024 scenario_dates)

lemma scenario_valid:
  "filter (has_valid_date ''DATE'') scenario_rows = scenario_rows"
  by (simp add: scenario_rows_def has_valid_date_def date_field_def)

lemma scenario_months:
  "map (row_month 0 ''DATE'') scenario_rows = [0, 1, 1]"
  by (simp add: scenario_rows_def row_month_def date_field_def jan16_2024 scenario_dates)

lemmas scenario_eval =
  spec_bucket_def contributions_def scenario_rows_def passes_gate_def other_year_def
  row_month_def date_field_def jan16_2024 scenario_dates isDepositRow_def isWithdrawRow_def
  isDividendRow_def isTradeRow_def Let_def blank_row_def added_Some added_None fl_10000 fl_250
  MONTH_LABELS_def

lemma scenario_buckets:
  "spec_bucket 0 (Some (Fin 2024)) ''DATE'' scenario_rows 0 =
     \<lparr>month = ''Jan'', deposit = Fin 10000, withdraw = Fin 0, dividends = Fin 0\<rparr>"
  "spec_bucket 0 (Some (Fin 2024)) ''DATE'' scenario_rows 1 =
     \<lparr>month = ''Feb'', deposit = Fin 0, withdraw = Fin 0, dividends = Fin 250\<rparr>"
  "spec_bucket 0 None ''DATE'' scenario_rows 0 =
     \<lparr>month = ''Jan'', deposit = Fin 10000, withdraw = Fin 0, dividends = Fin 0\<rparr>"
  "spec_bucket 0 None ''DATE'' scenario_rows 1 =
     \<lparr>month = ''Feb'', deposit = Fin 0, withdraw = Fin 0, dividends = Fin 250\<rparr>"
  by (simp_all add: scenario_eval str_eval)

theorem month_completeness_witness:
  "(Some (Fin 2024) = Some (Fin 2024) \<and> truthy (Fin 2024)) \<and>
   length (computeMonthlyCashflow 0 scenario_rows (Some (Fin 2024)) None) = 12 \<and>
   map month (computeMonthlyCashflow 0 scenario_rows (Some (Fin 2024)) None) = MONTH_LABELS \<and>
   computeMonthlyCashflow 0 scenario_rows (Some (Fin 2024)) None ! 0 =
     \<lparr>month = ''Jan'', deposit = Fin 10000, withdraw = Fin 0, dividends = Fin 0\<rparr> \<and>
   computeMonthlyCashflow 0 scenario_rows (Some (Fin 2024)) None ! 1 =
     \<lparr>month = ''Feb'', deposit = Fin 0, withdraw = Fin 0, dividends = Fin 250\<rparr> \<and>
   (2::nat) < 12 \<and>
   2 \<notin> row_month 0 (chosen_field None) `
           {r \<in> set scenario_rows. in_year 0 (Fin 2024) (chosen_field None) r} \<and>
   computeMonthlyCashflow 0 scenario_rows (Some (Fin 2024)) None ! 2 =
     \<lparr>month = ''Mar'', deposit = Fin 0, withdraw = Fin 0, dividends = Fin 0\<rparr> \<and>
   \<not> year_given None \<and>
   computeMonthlyCashflow 0 scenario_rows None None =
     [\<lparr>month = ''Jan'', deposit = Fin 10000, withdraw = Fin 0, dividends = Fin 0\<rparr>,
      \<lparr>month = ''Feb'', deposit = Fin 0, withdraw = Fin 0, dividends = Fin 250\<rparr>] \<and>
   map month (computeMonthlyCashflow 0 scenario_rows None None) = [''Jan'', ''Feb'']"
proof -
  have y: "Some (Fin 2024) = Some (Fin 2024) \<and> truthy (Fin 2024)" by simp
  have n: "\<not> year_given None" by (simp add: year_given_def)
  have df: "chosen_field None = ''DATE''" by (simp add: chosen_field_def)
  have s1: "{r \<in> set scenario_rows. in_year 0 (Fin 2024) ''DATE'' r} = set scenario_rows"
    using scenario_in_year by (metis set_filter)
  have s2: "{r \<in> set scenario_rows. has_valid_date ''DATE'' r} = set scenario_rows"
    using scenario_valid by (metis set_filter)
  have im: "row_month 0 ''DATE'' ` set scenario_rows = {0, 1}"
    using scenario_months by (metis list.set(1) list.set(2) list.set_map insert_absorb2)
  have a: "2 \<notin> row_month 0 (chosen_field None) `
           {r \<in> set scenario_rows. in_year 0 (Fin 2024) (chosen_field None) r}"
    by (simp add: df s1 im)
  have sl: "sorted_list_of_set {0, 1::nat} = [0, 1]"
    by (simp add: sorted_list_of_set_sort_remdups [of "[0, 1::nat]", simplified])
  note T = month_completeness [of "Some (Fin 2024)" 0 scenario_rows None]
  note U = month_completeness [of None 0 scenario_rows None]
  from T y have T1:
    "length (computeMonthlyCashflow 0 scenario_rows (Some (Fin 2024)) None) = 12"
    and T2:
    "map month (computeMonthlyCashflow 0 scenario_rows (Some (Fin 2024)) None) = MONTH_LABELS"
    and T3: "\<forall>m<12.
         m \<notin> row_month 0 (chosen_field None) `
               {r \<in> set scenario_rows. in_year 0 (Fin 2024) (chosen_field None) r} \<longrightarrow>
         computeMonthlyCashflow 0 scenario_rows (Some (Fin 2024)) None ! m =
           \<lparr>month = MONTH_LABELS ! m, deposit = Fin 0, withdraw = Fin 0, dividends = Fin 0\<rparr>"
    and T5: "computeMonthlyCashflow 0 scenario_rows (Some (Fin 2024)) None =
        map (spec_bucket 0 (Some (Fin 2024)) (chosen_field None) scenario_rows) [0..<12]"
    by blast+
  from T3 a have T4:
    "computeMonthlyCashflow 0 scenario_rows (Some (Fin 2024)) None ! 2 =
     \<lparr>month = MONTH_LABELS ! 2, deposit = Fin 0, withdraw = Fin 0, dividends = Fin 0\<rparr>"
    by simp
  have T6: "computeMonthlyCashflow 0 scenario_rows (Some (Fin 2024)) None ! 0 =
     \<lparr>month = ''Jan'', deposit = Fin 10000, withdraw = Fin 0, dividends = Fin 0\<rparr>"
    "computeMonthlyCashflow 0 scenario_rows (Some (Fin 2024)) None ! 1 =
     \<lparr>month = ''Feb'', deposit = Fin 0, withdraw = Fin 0, dividends = Fin 250\<rparr>"
    using scenario_buckets by (simp_all only: T5 df) (simp_all del: upt.simps)
  from U n have U1:
    "computeMonthlyCashflow 0 scenario_rows None None =
        map (spec_bucket 0 None (chosen_field None) scenario_rows)
          (sorted_list_of_set
             (row_month 0 (chosen_field None) `
                {r \<in> set scenario_rows. has_valid_date (chosen_field None) r}))"
    and U2: "map month (computeMonthlyCashflow 0 scenario_rows None None) =
        map (\<lambda>m. MONTH_LABELS ! m)
          (sorted_list_of_set
             (row_month 0 (chosen_field None) `
                {r \<in> set scenario_rows. has_valid_date (chosen_field None) r}))"
    by blast+
  have U3: "computeMonthlyCashflow 0 scenario_rows None None =
     [\<lparr>month = ''Jan'', deposit = Fin 10000, withdraw = Fin 0, dividends = Fin 0\<rparr>,
      \<lparr>month = ''Feb'', deposit = Fin 0, withdraw = Fin 0, dividends = Fin 250\<rparr>]"
    using scenario_buckets by (simp only: U1 df s2 im sl) simp
  have U4: "map month (computeMonthlyCashflow 0 scenario_rows None None) = [''Jan'', ''Feb'']"
    by (simp only: U2 df s2 im sl) (simp add: MONTH_LABELS_def)
  have T4': "computeMonthlyCashflow 0 scenario_rows (Some (Fin 2024)) None ! 2 =
     \<lparr>month = ''Mar'', deposit = Fin 0, withdraw = Fin 0, dividends = Fin 0\<rparr>"
    using T4 by (simp add: MONTH_LABELS_def)
  show ?thesis using y n a T1 T2 T4' T6 U3 U4 by simp
qed

text \<open>
  C10, as stated, fails: two deposit rows of the same month whose credits are the finite
  number \<open>2^1023\<close> leave \<open>Infinity\<close> in the bucket's \<open>deposit\<close>, because the sum of two
  finite numbers overflows.
\<close>

theorem buckets_finite_counterexample:
  "isFinite (Fin huge) \<and>
   \<not> isFinite (deposit (computeMonthlyCashflow 0
      [blank_row\<lparr>CD := ''OR'', DATE := Some (Date 1705406400000),
         PARTICULARS := ''FUTURE TRANSACTION'', PHP_CREDIT := Some (Fin huge)\<rparr>,
       blank_row\<lparr>CD := ''OR'', DATE := Some (Date 1705406400000),
         PARTICULARS := ''FUTURE TRANSACTION'', PHP_CREDIT := Some (Fin huge)\<rparr>]
      (Some (Fin 2024)) None ! 0))"
proof -
  let ?r = "blank_row\<lparr>CD := ''OR'', DATE := Some (Date 1705406400000),
         PARTICULARS := ''FUTURE TRANSACTION'', PHP_CREDIT := Some (Fin huge)\<rparr>"
  have cd: "toUpperCase (trim ''OR'') = ''OR''"
    by (simp add: str_eval)
  have p: "startsWith (toUpperCase (trim ''FUTURE TRANSACTION'')) ''FUTURE TRANSACTION''"
    by (simp add: str_eval)
  have g: "\<not> other_year 0 (Some (Fin 2024)) 1705406400000"
    by (simp add: other_year_def jan16_2024)
  have a1: "fl huge = Fin huge"
    by (rule fl_huge)
  have a2: "js_add (Fin huge) (Fin huge) = PInf"
    using fl_huge_twice by simp
  have h: "huge \<noteq> 0"
    by (simp add: huge_def)
  have s1: "cashflow_step 0 (Some (Fin 2024)) ''DATE'' [] ?r =
      [(0, \<lparr>month = ''Jan'', deposit = Fin huge, withdraw = Fin 0, dividends = Fin 0\<rparr>)]"
    using a1 h
    by (simp add: cashflow_step_def date_field_def g jan16_2024 Let_def isDividendRow_def
        isTradeRow_def cd p bucket_at_def initMonthRow_def MONTH_LABELS_def added_Some
        added_None blank_row_def)
  have s2: "cashflow_step 0 (Some (Fin 2024)) ''DATE''
      [(0, \<lparr>month = ''Jan'', deposit = Fin huge, withdraw = Fin 0, dividends = Fin 0\<rparr>)] ?r =
      [(0, \<lparr>month = ''Jan'', deposit = PInf, withdraw = Fin 0, dividends = Fin 0\<rparr>)]"
    using h
    by (simp add: cashflow_step_def date_field_def g jan16_2024 Let_def isDividendRow_def
        isTradeRow_def cd p bucket_at_def added_Some added_None blank_row_def a2
        del: js_add.simps)
  have "computeMonthlyCashflow 0 [?r, ?r] (Some (Fin 2024)) None ! 0 =
      \<lparr>month = ''Jan'', deposit = PInf, withdraw = Fin 0, dividends = Fin 0\<rparr>"
    by (simp add: computeMonthlyCashflow_def year_given_def chosen_field_def byMonth_after_def
        s1 s2 bucket_at_def Let_def del: upt.simps)
  then show ?thesis by simp
qed

lemma list_all_bucket_at:
  assumes "all_buckets P bm" and "\<And>m. P m (initMonthRow m)"
  shows "list_all (\<lambda>b. \<exists>m. P m b) (map (bucket_at bm) ms)"
  using all_buckets_bucket_at [OF assms(1) assms(2)]
  by (auto simp: list_all_iff)

lemma list_all_values:
  assumes "all_buckets P bm"
  shows "list_all (\<lambda>b. \<exists>m. P m b) (map snd (sort_key fst bm))"
  using assms by (fastforce simp: list_all_iff all_buckets_def)

text \<open>
  C10, amended.  For every row sequence, no bucket field is ever \<open>NaN\<close>.  Every bucket of
  the result is that of a month, with each field the amounts of its kind (of the rows of
  that month that pass the date gate) added one after the other from 0, where adding an
  amount that is absent, falsy or not a finite number leaves the field as it is, and adding
  a truthy finite amount is the addition of the language.  So a field stays finite unless
  the addition of a finite amount to a finite field overflows to an infinity, which
  takes a sum of magnitude \<open>2^1023\<close> or more.
\<close>

theorem buckets_never_NaN:
  "list_all (\<lambda>b. deposit b \<noteq> NaN \<and> withdraw b \<noteq> NaN \<and> dividends b \<noteq> NaN)
     (computeMonthlyCashflow tz rows year dfo) \<and>
   (\<forall>b \<in> set (computeMonthlyCashflow tz rows year dfo).
      \<exists>m<12. b = spec_bucket tz year (chosen_field dfo) rows m) \<and>
   (\<forall>x cs. isFinite x \<and> \<not> isFinite (foldl added x cs) \<longrightarrow>
      (\<exists>cs1 a y cs2. cs = cs1 @ Some (Fin a) # cs2 \<and> foldl added x cs1 = Fin y \<and> a \<noteq> 0 \<and>
         (js_add (Fin y) (Fin a) = PInf \<or> js_add (Fin y) (Fin a) = NInf) \<and>
         huge \<le> \<bar>y + a\<bar>)) \<and>
   (\<forall>x a. \<not> (truthy a \<and> isFinite a) \<longrightarrow> added x (Some a) = x) \<and>
   (\<forall>x. added x None = x) \<and>
   (\<forall>x a. truthy a \<and> isFinite a \<longrightarrow> added x (Some a) = js_add x a)"
proof -
  let ?P = "\<lambda>k v. deposit v \<noteq> NaN \<and> withdraw v \<noteq> NaN \<and> dividends v \<noteq> NaN"
  let ?bm = "byMonth_after tz year (chosen_field dfo) rows"
  have inv: "all_buckets ?P ?bm" by (rule no_NaN_inv)
  have init: "\<And>m. ?P m (initMonthRow m)" by (simp add: initMonthRow_def)
  have "list_all (\<lambda>b. \<exists>m::nat. ?P m b) (computeMonthlyCashflow tz rows year dfo)"
    using list_all_bucket_at [of ?P ?bm "[0..<12]", OF inv init] list_all_values [OF inv]
    by (simp add: computeMonthlyCashflow_def Let_def del: upt.simps)
  then have c1: "list_all (\<lambda>b. deposit b \<noteq> NaN \<and> withdraw b \<noteq> NaN \<and> dividends b \<noteq> NaN)
     (computeMonthlyCashflow tz rows year dfo)"
    by simp
  have c2: "\<forall>b \<in> set (computeMonthlyCashflow tz rows year dfo).
      \<exists>m<12. b = spec_bucket tz year (chosen_field dfo) rows m"
  proof
    fix b
    assume "b \<in> set (computeMonthlyCashflow tz rows year dfo)"
    then obtain m where m: "b = spec_bucket tz year (chosen_field dfo) rows m"
      "m \<in> set (if year_given year then [0..<12]
        else sorted_list_of_set
          (row_month tz (chosen_field dfo) `
             {r \<in> set rows. has_valid_date (chosen_field dfo) r}))"
      by (subst (asm) cashflow_spec) auto
    have "m < 12"
    proof (cases "year_given year")
      case True
      with m(2) show ?thesis by simp
    next
      case False
      with m(2) show ?thesis using active_months_lt_12 by simp
    qed
    with m(1) show "\<exists>m<12. b = spec_bucket tz year (chosen_field dfo) rows m" by blast
  qed
  have c3: "\<forall>x cs. isFinite x \<and> \<not> isFinite (foldl added x cs) \<longrightarrow>
      (\<exists>cs1 a y cs2. cs = cs1 @ Some (Fin a) # cs2 \<and> foldl added x cs1 = Fin y \<and> a \<noteq> 0 \<and>
         (js_add (Fin y) (Fin a) = PInf \<or> js_add (Fin y) (Fin a) = NInf) \<and>
         huge \<le> \<bar>y + a\<bar>)"
  proof (intro allI impI)
    fix x cs
    assume h: "isFinite x \<and> \<not> isFinite (foldl added x cs)"
    then obtain cs1 a y cs2 where o: "cs = cs1 @ Some (Fin a) # cs2"
      "foldl added x cs1 = Fin y" "a \<noteq> 0" "\<not> isFinite (js_add (Fin y) (Fin a))"
      using foldl_added_overflow [of x cs] by blast
    from js_add_overflow [OF o(4)] o(1) o(2) o(3)
    show "\<exists>cs1 a y cs2. cs = cs1 @ Some (Fin a) # cs2 \<and> foldl added x cs1 = Fin y \<and> a \<noteq> 0 \<and>
         (js_add (Fin y) (Fin a) = PInf \<or> js_add (Fin y) (Fin a) = NInf) \<and>
         huge \<le> \<bar>y + a\<bar>"
      by blast
  qed
  have c4: "\<forall>x a. \<not> (truthy a \<and> isFinite a) \<longrightarrow> added x (Some a) = x"
    "\<forall>x. added x None = x"
    "\<forall>x a. truthy a \<and> isFinite a \<longrightarrow> added x (Some a) = js_add x a"
    by (simp_all add: added_Some added_None)
  show ?thesis using c1 c2 c3 c4 by blast
qed

theorem buckets_never_NaN_witness:
  "list_all (\<lambda>b. deposit b \<noteq> NaN \<and> withdraw b \<noteq> NaN \<and> dividends b \<noteq> NaN)
     (computeMonthlyCashflow 0 scenario_rows (Some (Fin 2024)) None) \<and>
   computeMonthlyCashflow 0 scenario_rows (Some (Fin 2024)) None ! 0 \<in>
     set (computeMonthlyCashflow 0 scenario_rows (Some (Fin 2024)) None) \<and>
   (\<exists>m<12. computeMonthlyCashflow 0 scenario_rows (Some (Fin 2024)) None ! 0 =
      spec_bucket 0 (Some (Fin 2024)) ''DATE'' scenario_rows m) \<and>
   (isFinite (Fin 0) \<and> \<not> isFinite (foldl added (Fin 0) [Some (Fin huge), Some (Fin huge)])) \<and>
   (\<exists>cs1 a y cs2. [Some (Fin huge), Some (Fin huge)] = cs1 @ Some (Fin a) # cs2 \<and>
      foldl added (Fin 0) cs1 = Fin y \<and> a \<noteq> 0 \<and>
      (js_add (Fin y) (Fin a) = PInf \<or> js_add (Fin y) (Fin a) = NInf) \<and> huge \<le> \<bar>y + a\<bar>) \<and>
   \<not> (truthy NaN \<and> isFinite NaN) \<and> added (Fin 5) (Some NaN) = Fin 5 \<and>
   \<not> (truthy PInf \<and> isFinite PInf) \<and> added (Fin 5) (Some PInf) = Fin 5 \<and>
   \<not> (truthy (Fin 0) \<and> isFinite (Fin 0)) \<and> added (Fin 5) (Some (Fin 0)) = Fin 5 \<and>
   added (Fin 5) None = Fin 5 \<and>
   (truthy (Fin 2) \<and> isFinite (Fin 2)) \<and> added (Fin 5) (Some (Fin 2)) = js_add (Fin 5) (Fin 2)"
proof -
  note T = buckets_never_NaN [of 0 scenario_rows "Some (Fin 2024)" None]
  have df: "chosen_field None = ''DATE''" by (simp add: chosen_field_def)
  have l: "length (computeMonthlyCashflow 0 scenario_rows (Some (Fin 2024)) None) = 12"
    by (simp add: computeMonthlyCashflow_def year_given_def)
  then have e: "computeMonthlyCashflow 0 scenario_rows (Some (Fin 2024)) None ! 0 \<in>
     set (computeMonthlyCashflow 0 scenario_rows (Some (Fin 2024)) None)"
    by (intro nth_mem) simp
  from T have "\<forall>b \<in> set (computeMonthlyCashflow 0 scenario_rows (Some (Fin 2024)) None).
      \<exists>m<12. b = spec_bucket 0 (Some (Fin 2024)) (chosen_field None) scenario_rows m"
    by blast
  with e have c2: "\<exists>m<12. computeMonthlyCashflow 0 scenario_rows (Some (Fin 2024)) None ! 0 =
      spec_bucket 0 (Some (Fin 2024)) ''DATE'' scenario_rows m"
    by (simp only: df)
  have h0: "huge \<noteq> 0" by (simp add: huge_def)
  have f1: "added (Fin 0) (Some (Fin huge)) = Fin huge"
    using h0 fl_huge by (simp add: added_Some)
  have f2: "added (Fin huge) (Some (Fin huge)) = PInf"
    using h0 fl_huge_twice by (simp add: added_Some)
  have h: "isFinite (Fin 0) \<and> \<not> isFinite (foldl added (Fin 0) [Some (Fin huge), Some (Fin huge)])"
    by (simp add: f1 f2)
  from T have "\<forall>x cs. isFinite x \<and> \<not> isFinite (foldl added x cs) \<longrightarrow>
      (\<exists>cs1 a y cs2. cs = cs1 @ Some (Fin a) # cs2 \<and> foldl added x cs1 = Fin y \<and> a \<noteq> 0 \<and>
         (js_add (Fin y) (Fin a) = PInf \<or> js_add (Fin y) (Fin a) = NInf) \<and>
         huge \<le> \<bar>y + a\<bar>)"
    by blast
  with h have c3: "\<exists>cs1 a y cs2. [Some (Fin huge), Some (Fin huge)] = cs1 @ Some (Fin a) # cs2 \<and>
      foldl added (Fin 0) cs1 = Fin y \<and> a \<noteq> 0 \<and>
      (js_add (Fin y) (Fin a) = PInf \<or> js_add (Fin y) (Fin a) = NInf) \<and> huge \<le> \<bar>y + a\<bar>"
    by blast
  from T have c1: "list_all (\<lambda>b. deposit b \<noteq> NaN \<and> withdraw b \<noteq> NaN \<and> dividends b \<noteq> NaN)
     (computeMonthlyCashflow 0 scenario_rows (Some (Fin 2024)) None)"
    by blast
  have c4: "\<not> (truthy NaN \<and> isFinite NaN) \<and> added (Fin 5) (Some NaN) = Fin 5 \<and>
   \<not> (truthy PInf \<and> isFinite PInf) \<and> added (Fin 5) (Some PInf) = Fin 5 \<and>
   \<not> (truthy (Fin 0) \<and> isFinite (Fin 0)) \<and> added (Fin 5) (Some (Fin 0)) = Fin 5 \<and>
   added (Fin 5) None = Fin 5 \<and>
   (truthy (Fin 2) \<and> isFinite (Fin 2)) \<and> added (Fin 5) (Some (Fin 2)) = js_add (Fin 5) (Fin 2)"
    using T by simp
  show ?thesis using c1 e c2 h c3 c4 by blast
qed

section \<open>Properties of the amount parser\<close>

lemmas num_eval =
  stringToNumber_def unsigned_decimal_def non_decimal_def exponent_part_def signed_digits_def
  digits_val_def radix_val_def radix_digit_def pow10_def digitVal_def

lemmas amt_eval = parseAmountText_def removeSpaces_def normalizeMoney_def Let_def

lemma fl_1234_56: "fl (30864 / 25) = Fin (2714826150374277 / 2199023255552)"
  by (simp add: fl_eval)

lemma isFinite_js_neg: "isFinite (js_neg n) = isFinite n"
  by (cases n) simp_all

lemma parseAmountText_finite: "parseAmountText s = Some r \<Longrightarrow> isFinite r"
  by (auto simp: parseAmountText_def Let_def isFinite_js_neg split: if_splits)

lemma parseAmount_finite: "parseAmount v = Some r \<Longrightarrow> isFinite r"
  by (cases v) (auto dest: parseAmountText_finite split: if_splits)

text \<open>
  C8.  \<open>parseAmount("(1,234.56)")\<close> is the number \<open>-1234.56\<close> (the binary64 value nearest
  to 1234.56, negated); \<open>parseAmount("-")\<close> and \<open>parseAmount("")\<close> are absent;
  \<open>parseAmount(1000)\<close> is 1000, and every finite number is returned as it is.  On every
  cell value the function returns (it is total: no branch raises), and what it returns is
  either absent or a finite number.
\<close>

theorem parseAmount_examples:
  "parseAmount (CStr ''(1,234.56)'') = Some (js_neg (fl (123456 / 100))) \<and>
   js_neg (fl (123456 / 100)) = Fin (- (2714826150374277 / 2199023255552)) \<and>
   parseAmount (CStr ''-'') = None \<and>
   parseAmount (CStr []) = None \<and>
   parseAmount (CNum (Fin 1000)) = Some (Fin 1000) \<and>
   (\<forall>q. parseAmount (CNum (Fin q)) = Some (Fin q)) \<and>
   (\<forall>v. parseAmount v = None \<or> (\<exists>q. parseAmount v = Some (Fin q)))"
proof -
  have a: "parseAmount (CStr ''(1,234.56)'') = Some (js_neg (fl (123456 / 100)))"
    by (simp add: amt_eval num_eval str_eval fl_1234_56)
  have b: "js_neg (fl (123456 / 100)) = Fin (- (2714826150374277 / 2199023255552))"
    by (simp add: fl_1234_56)
  have c: "parseAmount (CStr ''-'') = None" "parseAmount (CStr []) = None"
    by (simp_all add: amt_eval str_eval)
  have d: "\<And>v. parseAmount v = None \<or> (\<exists>q. parseAmount v = Some (Fin q))"
    using parseAmount_finite isFinite_iff by (metis option.exhaust)
  show ?thesis using a b c d by simp
qed

section \<open>Properties of the tabular adapters\<close>

lemma findIndex_None: "(findIndex p xs = None) = (\<not> list_ex p xs)"
  by (induction xs) auto

lemma findIndex_Some:
  "(findIndex p xs = Some i) = (i < length xs \<and> p (xs ! i) \<and> (\<forall>j<i. \<not> p (xs ! j)))"
proof (induction xs arbitrary: i)
  case Nil
  show ?case by simp
next
  case (Cons x xs)
  show ?case
  proof (cases "p x")
    case True
    then show ?thesis by (cases i) auto
  next
    case False
    show ?thesis
    proof (cases i)
      case 0
      with False show ?thesis by simp
    next
      case (Suc k)
      have "(\<forall>j<Suc k. \<not> p ((x # xs) ! j)) = (\<forall>j<k. \<not> p (xs ! j))"
        using False by (auto simp: less_Suc_eq_0_disj)
      with False Suc Cons.IH [of k] show ?thesis by auto
    qed
  qed
qed

lemma findIndex_append:
  "\<not> list_ex p pre \<Longrightarrow>
   findIndex p (pre @ xs) =
     (case findIndex p xs of None \<Rightarrow> None | Some i \<Rightarrow> Some (length pre + i))"
  by (induction pre) (auto simp: option.map_comp o_def split: option.splits)

lemma worksheet_preamble:
  assumes "\<not> list_ex isHeaderRow pre" and "list_ex isHeaderRow rows"
  shows "parseLedgerRowsFromWorksheet tz (pre @ rows) = parseLedgerRowsFromWorksheet tz rows"
proof -
  from assms(2) obtain i where i: "findIndex isHeaderRow rows = Some i"
    using findIndex_None [of isHeaderRow rows] by auto
  then have lt: "i < length rows" by (simp add: findIndex_Some)
  have ne: "rows \<noteq> []" using lt by auto
  have f: "findIndex isHeaderRow (pre @ rows) = Some (length pre + i)"
    using findIndex_append [OF assms(1)] i by simp
  show ?thesis
    using ne lt by (simp add: parseLedgerRowsFromWorksheet_def f i nth_append)
qed

lemma worksheet_no_header:
  assumes "rows \<noteq> []" and "\<not> list_ex isHeaderRow rows"
  shows "parseLedgerRowsFromWorksheet tz rows =
         Inl (Error ''Could not find header row (CD, NUMBER, DATE, ...) in CSV'')"
  using assms findIndex_None [of isHeaderRow rows]
  by (simp add: parseLedgerRowsFromWorksheet_def)

lemma worksheet_header_first:
  assumes "isHeaderRow h"
  shows "parseLedgerRowsFromWorksheet tz (h # rest) =
         Inr (List.map_filter
                (\<lambda>r. if r = [] then None else data_row tz (map normalizeHeaderCell h) r) rest)"
  using assms by (simp add: parseLedgerRowsFromWorksheet_def)

lemma lines_preamble:
  assumes "\<not> list_ex isCsvHeaderLine pre" and "list_ex isCsvHeaderLine ls"
  shows "rows_from_lines tz (pre @ ls) = rows_from_lines tz ls"
proof -
  from assms(2) obtain i where i: "findIndex isCsvHeaderLine ls = Some i"
    using findIndex_None [of isCsvHeaderLine ls] by auto
  then have lt: "i < length ls" by (simp add: findIndex_Some)
  have f: "findIndex isCsvHeaderLine (pre @ ls) = Some (length pre + i)"
    using findIndex_append [OF assms(1)] i by simp
  show ?thesis
    using lt by (simp add: rows_from_lines_def f i nth_append)
qed

lemma lines_no_header:
  assumes "\<not> list_ex isCsvHeaderLine ls"
  shows "rows_from_lines tz ls =
         Inl (Error ''Could not find header row (CD, NUMBER, DATE, ...) in CSV'')"
  using assms findIndex_None [of isCsvHeaderLine ls]
  by (simp add: rows_from_lines_def)

lemma lines_header_first:
  assumes "isCsvHeaderLine h"
  shows "rows_from_lines tz (h # rest) =
         Inr (List.map_filter
                (\<lambda>l. data_row tz (map (\<lambda>c. normalizeHeaderCell (CStr c)) (parseCsvLine h))
                        (map CStr (parseCsvLine l))) rest)"
  using assms by (simp add: rows_from_lines_def)

lemma split_lines_from_LF:
  "split_lines_from cur (CHR 0x0A # rest) = cur # split_lines_from [] rest"
  by (cases rest) simp_all

lemma split_lines_from_line:
  "CHR 0x0A \<notin> set l \<Longrightarrow> l = [] \<or> last l \<noteq> CHR 0x0D \<Longrightarrow>
   split_lines_from cur (l @ CHR 0x0A # rest) = (cur @ l) # split_lines_from [] rest"
proof (induction l arbitrary: cur)
  case Nil
  show ?case by (simp add: split_lines_from_LF)
next
  case (Cons c l)
  show ?case
  proof (cases l)
    case Nil
    with Cons.prems show ?thesis by (simp add: split_lines_from_LF)
  next
    case (Cons d l')
    have "split_lines_from cur (c # d # l' @ CHR 0x0A # rest) =
          split_lines_from (cur @ [c]) (d # l' @ CHR 0x0A # rest)"
      using Cons.prems Cons by auto
    moreover have "split_lines_from (cur @ [c]) (l @ CHR 0x0A # rest) =
          ((cur @ [c]) @ l) # split_lines_from [] rest"
      using Cons.prems Cons by (intro Cons.IH) auto
    ultimately show ?thesis using Cons by simp
  qed
qed

lemma rows_from_lines_Inr:
  "rows_from_lines tz ls = Inr rows \<Longrightarrow> list_ex isCsvHeaderLine ls"
  using findIndex_None [of isCsvHeaderLine ls]
  by (auto simp: rows_from_lines_def split: option.splits)

lemma csv_preamble_line:
  assumes "CHR 0x0A \<notin> set l" and "l = [] \<or> last l \<noteq> CHR 0x0D"
    and "\<not> isCsvHeaderLine l"
    and "loadFmsecLedgerRowsFromCsvText tz csvText = Inr rows"
  shows "loadFmsecLedgerRowsFromCsvText tz (l @ CHR 0x0A # csvText) = Inr rows"
proof -
  let ?ls = "filter (\<lambda>l. trim l \<noteq> []) (split_lines csvText)"
  have s: "split_lines (l @ CHR 0x0A # csvText) = l # split_lines csvText"
    using split_lines_from_line [OF assms(1) assms(2), of "[]" csvText] by (simp add: split_lines_def)
  have h: "list_ex isCsvHeaderLine ?ls"
    using assms(4) rows_from_lines_Inr by (simp add: loadFmsecLedgerRowsFromCsvText_def)
  have p: "\<not> list_ex isCsvHeaderLine (filter (\<lambda>l. trim l \<noteq> []) [l])"
    using assms(3) by simp
  have "rows_from_lines tz (filter (\<lambda>l. trim l \<noteq> []) [l] @ ?ls) = rows_from_lines tz ?ls"
    using p h by (rule lines_preamble)
  then show ?thesis
    using assms(4) by (auto simp add: loadFmsecLedgerRowsFromCsvText_def s split: if_splits)
qed

lemmas csv_eval =
  loadFmsecLedgerRowsFromCsvText_def rows_from_lines_def split_lines_def isCsvHeaderLine_def
  parseCsvLine_def isHeaderRow_def isMarkerCell_def

text \<open>
  C6, as stated, fails for the adapter of delimited text: a first line that has the field
  \<open>CD\<close>, but not as the start of \<open>CD,NUMBER,DATE,\<close>, is not taken as the header, and
  loading fails.
\<close>

theorem header_location_counterexample:
  "isHeaderRow (map CStr (parseCsvLine ''DATE,CD,PARTICULARS,PHP_DEBIT,PHP_CREDIT'')) \<and>
   loadFmsecLedgerRowsFromCsvText 0
     (''DATE,CD,PARTICULARS,PHP_DEBIT,PHP_CREDIT'' @ [CHR 0x0A] @ ''1/2/2024,OR,X,5,'') =
   Inl (Error ''Could not find header row (CD, NUMBER, DATE, ...) in CSV'')"
  by (simp add: csv_eval str_eval)

lemmas date_eval =
  parseLedgerDate_def parseLedgerDateText_def isNumericString_def patterns_def
  parse_layout_def day_digits_def month_digits_def take_digits_def daysInMonth_def
  isLeapYear_def serial_date_def msPerDay_def

lemmas row_eval =
  data_row_def make_row_def cell_at_def coerceLedgerRow_def normalizeHeaderCell_def
  collapseSpaces_def

lemma dfc_2024_01_16: "days_from_civil 2024 1 16 = 19738"
  by code_simp

lemma csv_example_date: "parseLedgerDate 0 (CStr ''16/1/2024'') = Some (Date 1705363200000)"
  by (simp add: date_eval str_eval num_eval dfc_2024_01_16)

lemma parseLedgerDate_undefined: "parseLedgerDate tz CUndefined = None"
  by (simp add: parseLedgerDate_def)

lemma csv_example_header: "map (\<lambda>h. normalizeHeaderCell (CStr h)) (parseCsvLine ''CD,NUMBER,DATE,PARTICULARS,PHP DEBIT,PHP C R E D I T'') =
   [''CD'', ''NUMBER'', ''DATE'', ''PARTICULARS'', ''PHP_DEBIT'', ''PHP_CREDIT'']"
  by (simp add: row_eval csv_eval str_eval)

lemma csv_example_row: "data_row 0 [''CD'', ''NUMBER'', ''DATE'', ''PARTICULARS'', ''PHP_DEBIT'', ''PHP_CREDIT'']
    (map CStr (parseCsvLine ''OR,1,16/1/2024,FUTURE TRANSACTION,,10000'')) =
   Some (blank_row\<lparr>CD := ''OR'', NUMBER := ''1'', DATE := Some (Date 1705363200000),
      PARTICULARS := ''FUTURE TRANSACTION'', PHP_CREDIT := Some (Fin 10000)\<rparr>)"
  by (simp add: row_eval csv_eval str_eval parseLedgerDate_undefined csv_example_date amt_eval num_eval fl_10000 blank_row_def)

lemma csv_example_load: "loadFmsecLedgerRowsFromCsvText 0
     (''CD,NUMBER,DATE,PARTICULARS,PHP DEBIT,PHP C R E D I T'' @ [CHR 0x0A] @
      ''OR,1,16/1/2024,FUTURE TRANSACTION,,10000'') =
   Inr [blank_row\<lparr>CD := ''OR'', NUMBER := ''1'', DATE := Some (Date 1705363200000),
      PARTICULARS := ''FUTURE TRANSACTION'', PHP_CREDIT := Some (Fin 10000)\<rparr>]"
proof -
  have s: "filter (\<lambda>l. trim l \<noteq> []) (split_lines
     (''CD,NUMBER,DATE,PARTICULARS,PHP DEBIT,PHP C R E D I T'' @ [CHR 0x0A] @
      ''OR,1,16/1/2024,FUTURE TRANSACTION,,10000'')) =
      [''CD,NUMBER,DATE,PARTICULARS,PHP DEBIT,PHP C R E D I T'',
       ''OR,1,16/1/2024,FUTURE TRANSACTION,,10000'']"
    by (simp add: split_lines_def str_eval)
  have h: "isCsvHeaderLine ''CD,NUMBER,DATE,PARTICULARS,PHP DEBIT,PHP C R E D I T''"
    by (simp add: isCsvHeaderLine_def str_eval)
  show ?thesis
    unfolding loadFmsecLedgerRowsFromCsvText_def s
    by (simp add: lines_header_first [OF h] csv_example_header csv_example_row List.map_filter_simps)
qed

lemma d45307: "parse_date_code 45307 = Some (2024, 1, 16)"
proof -
  have c: "civil_from_days 19738 = (2024, 1, 16)" "days_from_civil 1900 1 1 = - 25567"
    by (code_simp, code_simp)
  show ?thesis
    by (simp add: parse_date_code_def fl_def c)
qed

lemma utc_noon_2024_01_16: "utc_noon 2024 1 16 = Date 1705406400000"
proof -
  have c: "days_from_civil 2024 1 1 = 19723" by code_simp
  show ?thesis by (simp add: utc_noon_def c msPerDay_def)
qed

lemma serial_45307: "parseLedgerDate tz (CNum (Fin 45307)) = Some (Date 1705406400000)"
  by (simp add: parseLedgerDate_def serial_date_def d45307 utc_noon_2024_01_16)

lemma sheet_example_row:
  "data_row 0 (map normalizeHeaderCell
       [CStr '' cd '', CStr ''Date'', CStr ''Particulars'', CStr ''PHP D E B I T'', CStr ''Php  Credit''])
     [CStr ''OR'', CNum (Fin 45307), CStr ''FUTURE TRANSACTION'', CUndefined, CNum (Fin 10000)] =
   Some (blank_row\<lparr>CD := ''OR'', DATE := Some (Date 1705406400000),
      PARTICULARS := ''FUTURE TRANSACTION'', PHP_CREDIT := Some (Fin 10000)\<rparr>)"
  by (simp add: row_eval str_eval parseLedgerDate_undefined serial_45307 blank_row_def)

text \<open>
  C6, amended.  The worksheet adapter takes as header the first row that has a cell equal
  to \<open>CD\<close> after trimming and upper-casing; the adapter of delimited text takes the first
  non-blank line that, trimmed and upper-cased, starts with \<open>CD,NUMBER,DATE,\<close>.  For each
  adapter, rows (lines) before the header that fail its test change nothing, the rows after
  the header are read against the normalized header, and loading fails with "Could not find
  header row ..." when no row (line) passes the test (for a worksheet: when it has a row
  at all).
\<close>

theorem header_location:
  "(\<forall>pre rows. \<not> list_ex isHeaderRow pre \<and> list_ex isHeaderRow rows \<longrightarrow>
      parseLedgerRowsFromWorksheet tz (pre @ rows) = parseLedgerRowsFromWorksheet tz rows) \<and>
   (\<forall>h rest. isHeaderRow h \<longrightarrow>
      parseLedgerRowsFromWorksheet tz (h # rest) =
        Inr (List.map_filter
               (\<lambda>r. if r = [] then None else data_row tz (map normalizeHeaderCell h) r) rest)) \<and>
   (\<forall>rows. rows \<noteq> [] \<and> \<not> list_ex isHeaderRow rows \<longrightarrow>
      parseLedgerRowsFromWorksheet tz rows =
        Inl (Error ''Could not find header row (CD, NUMBER, DATE, ...) in CSV'')) \<and>
   (\<forall>r. isHeaderRow r = list_ex (\<lambda>c. toUpperCase (trim (toStrOrEmpty c)) = ''CD'') r) \<and>
   (\<forall>pre ls. \<not> list_ex isCsvHeaderLine pre \<and> list_ex isCsvHeaderLine ls \<longrightarrow>
      rows_from_lines tz (pre @ ls) = rows_from_lines tz ls) \<and>
   (\<forall>h rest. isCsvHeaderLine h \<longrightarrow>
      rows_from_lines tz (h # rest) =
        Inr (List.map_filter
               (\<lambda>l. data_row tz (map (\<lambda>c. normalizeHeaderCell (CStr c)) (parseCsvLine h))
                       (map CStr (parseCsvLine l))) rest)) \<and>
   (\<forall>ls. \<not> list_ex isCsvHeaderLine ls \<longrightarrow>
      rows_from_lines tz ls =
        Inl (Error ''Could not find header row (CD, NUMBER, DATE, ...) in CSV'')) \<and>
   (\<forall>l. isCsvHeaderLine l = startsWith (toUpperCase (trim l)) ''CD,NUMBER,DATE,'') \<and>
   (\<forall>csvText. loadFmsecLedgerRowsFromCsvText tz csvText =
      rows_from_lines tz (filter (\<lambda>l. trim l \<noteq> []) (split_lines csvText))) \<and>
   (\<forall>l csvText rows.
      CHR 0x0A \<notin> set l \<and> (l = [] \<or> last l \<noteq> CHR 0x0D) \<and> \<not> isCsvHeaderLine l \<and>
      loadFmsecLedgerRowsFromCsvText tz csvText = Inr rows \<longrightarrow>
      loadFmsecLedgerRowsFromCsvText tz (l @ CHR 0x0A # csvText) = Inr rows)"
proof (intro conjI allI impI)
  fix pre rows
  assume "\<not> list_ex isHeaderRow pre \<and> list_ex isHeaderRow rows"
  then show "parseLedgerRowsFromWorksheet tz (pre @ rows) = parseLedgerRowsFromWorksheet tz rows"
    by (simp add: worksheet_preamble)
next
  fix h rest
  assume "isHeaderRow h"
  then show "parseLedgerRowsFromWorksheet tz (h # rest) =
        Inr (List.map_filter
               (\<lambda>r. if r = [] then None else data_row tz (map normalizeHeaderCell h) r) rest)"
    by (rule worksheet_header_first)
next
  fix rows :: "cell list list"
  assume "rows \<noteq> [] \<and> \<not> list_ex isHeaderRow rows"
  then show "parseLedgerRowsFromWorksheet tz rows =
        Inl (Error ''Could not find header row (CD, NUMBER, DATE, ...) in CSV'')"
    by (simp add: worksheet_no_header)
next
  fix r
  show "isHeaderRow r = list_ex (\<lambda>c. toUpperCase (trim (toStrOrEmpty c)) = ''CD'') r"
    by (simp add: isHeaderRow_def isMarkerCell_def [abs_def])
next
  fix pre ls
  assume "\<not> list_ex isCsvHeaderLine pre \<and> list_ex isCsvHeaderLine ls"
  then show "rows_from_lines tz (pre @ ls) = rows_from_lines tz ls"
    by (simp add: lines_preamble)
next
  fix h rest
  assume "isCsvHeaderLine h"
  then show "rows_from_lines tz (h # rest) =
        Inr (List.map_filter
               (\<lambda>l. data_row tz (map (\<lambda>c. normalizeHeaderCell (CStr c)) (parseCsvLine h))
                       (map CStr (parseCsvLine l))) rest)"
    by (rule lines_header_first)
next
  fix ls
  assume "\<not> list_ex isCsvHeaderLine ls"
  then show "rows_from_lines tz ls =
        Inl (Error ''Could not find header row (CD, NUMBER, DATE, ...) in CSV'')"
    by (rule lines_no_header)
next
  fix l
  show "isCsvHeaderLine l = startsWith (toUpperCase (trim l)) ''CD,NUMBER,DATE,''"
    by (simp add: isCsvHeaderLine_def)
next
  fix csvText
  show "loadFmsecLedgerRowsFromCsvText tz csvText =
      rows_from_lines tz (filter (\<lambda>l. trim l \<noteq> []) (split_lines csvText))"
    by (simp add: loadFmsecLedgerRowsFromCsvText_def)
next
  fix l csvText rows
  assume "CHR 0x0A \<notin> set l \<and> (l = [] \<or> last l \<noteq> CHR 0x0D) \<and> \<not> isCsvHeaderLine l \<and>
      loadFmsecLedgerRowsFromCsvText tz csvText = Inr rows"
  then show "loadFmsecLedgerRowsFromCsvText tz (l @ CHR 0x0A # csvText) = Inr rows"
    by (simp add: csv_preamble_line)
qed

theorem header_location_witness:
  "(\<not> list_ex isHeaderRow [[CStr ''FMSEC Ledger''], [], [CStr ''Account'', CStr ''C-1'']] \<and>
    list_ex isHeaderRow
      [[CStr '' cd '', CStr ''Date'', CStr ''Particulars'', CStr ''PHP D E B I T'', CStr ''Php  Credit''],
       [CStr ''OR'', CNum (Fin 45307), CStr ''FUTURE TRANSACTION'', CUndefined, CNum (Fin 10000)]]) \<and>
   parseLedgerRowsFromWorksheet 0
     ([[CStr ''FMSEC Ledger''], [], [CStr ''Account'', CStr ''C-1'']] @
      [[CStr '' cd '', CStr ''Date'', CStr ''Particulars'', CStr ''PHP D E B I T'', CStr ''Php  Credit''],
       [CStr ''OR'', CNum (Fin 45307), CStr ''FUTURE TRANSACTION'', CUndefined, CNum (Fin 10000)]]) =
   Inr [blank_row\<lparr>CD := ''OR'', DATE := Some (Date 1705406400000),
      PARTICULARS := ''FUTURE TRANSACTION'', PHP_CREDIT := Some (Fin 10000)\<rparr>] \<and>
   ([[CStr ''x'']] \<noteq> [] \<and> \<not> list_ex isHeaderRow [[CStr ''x'']]) \<and>
   parseLedgerRowsFromWorksheet 0 [[CStr ''x'']] =
     Inl (Error ''Could not find header row (CD, NUMBER, DATE, ...) in CSV'') \<and>
   (CHR 0x0A \<notin> set ''FMSEC Ledger'' \<and> (''FMSEC Ledger'' = [] \<or> last ''FMSEC Ledger'' \<noteq> CHR 0x0D) \<and>
    \<not> isCsvHeaderLine ''FMSEC Ledger'' \<and>
    loadFmsecLedgerRowsFromCsvText 0
     (''CD,NUMBER,DATE,PARTICULARS,PHP DEBIT,PHP C R E D I T'' @ [CHR 0x0A] @
      ''OR,1,16/1/2024,FUTURE TRANSACTION,,10000'') =
    Inr [blank_row\<lparr>CD := ''OR'', NUMBER := ''1'', DATE := Some (Date 1705363200000),
      PARTICULARS := ''FUTURE TRANSACTION'', PHP_CREDIT := Some (Fin 10000)\<rparr>]) \<and>
   loadFmsecLedgerRowsFromCsvText 0
     (''FMSEC Ledger'' @ CHR 0x0A #
      ''CD,NUMBER,DATE,PARTICULARS,PHP DEBIT,PHP C R E D I T'' @ [CHR 0x0A] @
      ''OR,1,16/1/2024,FUTURE TRANSACTION,,10000'') =
    Inr [blank_row\<lparr>CD := ''OR'', NUMBER := ''1'', DATE := Some (Date 1705363200000),
      PARTICULARS := ''FUTURE TRANSACTION'', PHP_CREDIT := Some (Fin 10000)\<rparr>]"
proof -
  let ?pre = "[[CStr ''FMSEC Ledger''], [], [CStr ''Account'', CStr ''C-1'']]"
  let ?h = "[CStr '' cd '', CStr ''Date'', CStr ''Particulars'', CStr ''PHP D E B I T'', CStr ''Php  Credit'']"
  let ?d = "[CStr ''OR'', CNum (Fin 45307), CStr ''FUTURE TRANSACTION'', CUndefined, CNum (Fin 10000)]"
  let ?csv = "''CD,NUMBER,DATE,PARTICULARS,PHP DEBIT,PHP C R E D I T'' @ [CHR 0x0A] @
      ''OR,1,16/1/2024,FUTURE TRANSACTION,,10000''"
  note T = header_location [of 0]
  have p: "\<not> list_ex isHeaderRow ?pre"
    by (simp add: isHeaderRow_def isMarkerCell_def str_eval)
  have h: "isHeaderRow ?h"
    by (simp add: isHeaderRow_def isMarkerCell_def str_eval)
  then have hs: "list_ex isHeaderRow [?h, ?d]" by simp
  have x: "[[CStr ''x'']] \<noteq> [] \<and> \<not> list_ex isHeaderRow [[CStr ''x'']]"
    by (simp add: isHeaderRow_def isMarkerCell_def str_eval)
  have l: "CHR 0x0A \<notin> set ''FMSEC Ledger'' \<and> (''FMSEC Ledger'' = [] \<or> last ''FMSEC Ledger'' \<noteq> CHR 0x0D) \<and>
    \<not> isCsvHeaderLine ''FMSEC Ledger''"
    by (simp add: isCsvHeaderLine_def str_eval)
  have c1: "parseLedgerRowsFromWorksheet 0 (?pre @ [?h, ?d]) =
            parseLedgerRowsFromWorksheet 0 [?h, ?d]"
    using T p hs by blast
  have c2: "parseLedgerRowsFromWorksheet 0 [?h, ?d] =
        Inr (List.map_filter
               (\<lambda>r. if r = [] then None else data_row 0 (map normalizeHeaderCell ?h) r) [?d])"
    using T h by blast
  have c3: "parseLedgerRowsFromWorksheet 0 [[CStr ''x'']] =
     Inl (Error ''Could not find header row (CD, NUMBER, DATE, ...) in CSV'')"
    using T x by blast
  have c4: "loadFmsecLedgerRowsFromCsvText 0 (''FMSEC Ledger'' @ CHR 0x0A # ?csv) =
    Inr [blank_row\<lparr>CD := ''OR'', NUMBER := ''1'', DATE := Some (Date 1705363200000),
      PARTICULARS := ''FUTURE TRANSACTION'', PHP_CREDIT := Some (Fin 10000)\<rparr>]"
    using T l csv_example_load by blast
  have c5: "parseLedgerRowsFromWorksheet 0 (?pre @ [?h, ?d]) =
     Inr [blank_row\<lparr>CD := ''OR'', DATE := Some (Date 1705406400000),
      PARTICULARS := ''FUTURE TRANSACTION'', PHP_CREDIT := Some (Fin 10000)\<rparr>]"
    unfolding c1 c2 using sheet_example_row by (simp add: List.map_filter_simps)
  show ?thesis
    using p hs x l c3 c4 c5 csv_example_load by blast
qed

section \<open>Properties of the loader\<close>


lemma validated_rows:
  "validated rows = (if rows = [] then Inl (Error ''No ledger rows found'') else Inr rows)"
  by (cases rows)
     (simp_all add: validated_def validateFmsecLedgerHeaders_def properties_def required_def)


lemma toString_utf8_ascii:
  "list_all (\<lambda>b. (of_char b :: nat) < 128) buf \<Longrightarrow> toString_utf8 buf = Some buf"
  by (simp add: toString_utf8_def)



section \<open>Properties of the statement adapter\<close>

lemmas money_eval =
  findMoneyTokensWithIndex_def money_at_def money_sign_def money_digits_def money_digits_of_def
  money_tail_def hasPhp_def isWordChar_def

lemmas pdf_eval =
  extractMovementAmountFromPhpLine_def extractParticulars_def keptLine_def isAmountChars_def
  isSeparatorLine_def isSeparatorChar_def replaceSeparators_def decimalTail_def
  parseReference_def start_parts_def isTransactionStartLine_def first_line_match_def
  match_mmddyyyy_def parsePdfDateMmDdYyyy_def slice_def collapseSpaces_def
  shouldEndTransactionSection_def

lemma ex_tokens: "findMoneyTokensWithIndex '' 0.0000 10,000.00 PHP 25,000.00'' =
   [(''0.00'', 1), (''10,000.00'', 8), (''25,000.00'', 22)]"
  by (simp add: money_eval str_eval)

lemma ex_money: "normalizeMoney (CStr ''10,000.00'') = Some (Fin 10000)"
  by (simp add: amt_eval num_eval str_eval fl_10000)

lemma ex_movement:
  "extractMovementAmountFromPhpLine
     [''01/16/2024 OR-12345  FUTURE TRANSACTION'', '' 0.0000 10,000.00 PHP 25,000.00''] =
   Some (Fin 10000)"
  by (simp add: extractMovementAmountFromPhpLine_def pick_token_def ex_tokens ex_money hasPhp_def
      isWordChar_def str_eval)

lemma ex_particulars:
  "extractParticulars
     [''01/16/2024 OR-12345  FUTURE TRANSACTION'', '' 0.0000 10,000.00 PHP 25,000.00'']
     ''FUTURE TRANSACTION'' = ''FUTURE TRANSACTION''"
  by (simp add: pdf_eval money_eval ex_tokens str_eval)

lemma ex_first:
  "first_line_match ''01/16/2024 OR-12345  FUTURE TRANSACTION'' =
     Some (''01/16/2024'', ''OR-12345'', ''FUTURE TRANSACTION'')"
  by (simp add: pdf_eval str_eval)

lemma ex_date: "parsePdfDateMmDdYyyy ''01/16/2024'' = Some (Date 1705406400000)"
  by (simp add: pdf_eval str_eval digits_val_def digitVal_def utc_noon_2024_01_16)

lemma ex_ref: "parseReference ''OR-12345'' = (''OR'', ''12345'')"
  by (simp add: pdf_eval str_eval)

lemma ex_block:
  "parseTransactionBlock
     [''01/16/2024 OR-12345  FUTURE TRANSACTION'', '' 0.0000 10,000.00 PHP 25,000.00''] None =
   Some (blank_row\<lparr>CD := ''OR'', NUMBER := ''12345'', DATE := Some (Date 1705406400000),
      PARTICULARS := ''FUTURE TRANSACTION'', CURRENCY := ''PHP'',
      PHP_DEBIT := Some (Fin 0), PHP_CREDIT := Some (Fin 10000)\<rparr>)"
  by (simp add: parseTransactionBlock_def ex_first ex_date ex_ref ex_particulars ex_movement
      str_eval blank_row_def)

lemma movement_scan_find:
  "movement_scan ls =
     (case find movement_line ls of
        None \<Rightarrow> None
      | Some l \<Rightarrow> normalizeMoney (CStr (fst (pick_token (findMoneyTokensWithIndex l)))))"
  by (induction ls) (auto simp: movement_line_def Let_def split: option.splits)

lemma normalizeMoney_nonneg:
  "normalizeMoney v = Some r \<Longrightarrow> \<exists>q. r = Fin q \<and> 0 \<le> q"
proof -
  assume a: "normalizeMoney v = Some r"
  then obtain n where n: "parseAmount v = Some n" and f: "isFinite n"
    and r: "r = (if js_lt n (Fin 0) then js_neg n else n)"
    by (auto simp: normalizeMoney_def split: option.splits if_splits)
  from f obtain q where "n = Fin q" by (auto simp: isFinite_iff)
  with r show ?thesis by (cases "q < 0") auto
qed

lemma movement_scan_nonneg:
  "movement_scan ls = Some r \<Longrightarrow> \<exists>q. r = Fin q \<and> 0 \<le> q"
  by (auto simp: movement_scan_find dest: normalizeMoney_nonneg split: option.splits)

lemma block_amounts:
  assumes "parseTransactionBlock blockLines col = Some row"
  shows "(\<exists>d c. PHP_DEBIT row = Some (Fin d) \<and> PHP_CREDIT row = Some (Fin c) \<and>
            0 \<le> d \<and> 0 \<le> c \<and> (d = 0 \<or> c = 0)) \<and>
         (extractMovementAmountFromPhpLine blockLines = None \<longrightarrow>
            PHP_DEBIT row = Some (Fin 0) \<and> PHP_CREDIT row = Some (Fin 0))"
proof (cases "extractMovementAmountFromPhpLine blockLines")
  case None
  with assms show ?thesis
    by (auto simp: parseTransactionBlock_def Let_def
        split: list.splits option.splits jsdate.splits prod.splits)
next
  case (Some mv)
  then obtain q where q: "mv = Fin q" "0 \<le> q"
    using movement_scan_nonneg by (auto simp: extractMovementAmountFromPhpLine_def)
  with assms Some show ?thesis
    by (auto simp: parseTransactionBlock_def Let_def
        split: list.splits option.splits jsdate.splits prod.splits if_splits)
qed

end
